theory Spec2Isabelle
  imports Main "HOL-Library.Multiset"
begin

section \<open>Data model (package models)\<close>

text \<open>
  Go strings are byte strings and are modelled as \<^typ>\<open>string\<close>.  Go's \<open>int\<close> is only
  printed, never calculated with, and is modelled as \<^typ>\<open>int\<close>; a \<open>*int\<close> is an
  \<^typ>\<open>int option\<close> with \<open>None\<close> for \<open>nil\<close>.

  \<open>Column.DefaultValue\<close> has type \<open>interface{}\<close> and is filled by the JSON decoder, so it
  holds \<open>nil\<close>, a \<open>string\<close>, a \<open>bool\<close>, a \<open>float64\<close>, or an array or object.  The type
  of \<open>float64\<close> values is the parameter \<open>'f\<close>; how \<open>fmt\<close> prints one with \<open>%v\<close> is a
  parameter \<open>fmt_v\<close> of the functions that print.
\<close>

datatype 'f any = JString string | JBool bool | JNumber 'f | JOther

record 'f Column =
  c_ID :: string
  c_Name :: string
  DataType :: string
  Length :: "int option"
  Precision :: "int option"
  Scale :: "int option"
  Nullable :: bool
  PrimaryKey :: bool
  AutoIncrement :: bool
  Unique :: bool
  DefaultValue :: "'f any option"

record Index =
  i_Name :: string
  i_Columns :: "string list"
  i_Unique :: bool

record 'f Table =
  t_ID :: string
  t_Name :: string
  Columns :: "'f Column list"
  Position :: "'f \<times> 'f"
  Indexes :: "Index list"

record ForeignKey =
  fk_ID :: string
  fk_Name :: string
  SourceTableId :: string
  SourceColumnId :: string
  TargetTableId :: string
  TargetColumnId :: string
  OnDelete :: string
  OnUpdate :: string

record 'f SchemaData =
  Tables :: "'f Table list"
  ForeignKeys :: "ForeignKey list"
  Version :: string
  ExportedAt :: string

record 'f SchemaValidationRequest =
  svr_Name :: string
  svr_Tables :: "'f Table list"
  svr_ForeignKeys :: "ForeignKey list"

record ValidationError =
  Field :: string
  Message :: string
  Code :: string

record ValidationResult =
  Valid :: bool
  Errors :: "ValidationError list"
  Warnings :: "string list"
  GeneratedSQL :: "string list"

text \<open>A Go \<open>map[string]bool\<close> read with \<open>m[k]\<close>: a missing key reads as \<open>false\<close>.\<close>

definition lookup_bool :: "(string \<rightharpoonup> bool) \<Rightarrow> string \<Rightarrow> bool" where
  "lookup_bool m k = (case m k of None \<Rightarrow> False | Some b \<Rightarrow> b)"

definition SupportedDataTypes :: "string \<rightharpoonup> bool" where
  "SupportedDataTypes = map_of
     [(''INT'', True), (''BIGINT'', True), (''VARCHAR'', True), (''TEXT'', True),
      (''BOOLEAN'', True), (''TIMESTAMP'', True), (''DATE'', True), (''TIME'', True),
      (''DECIMAL'', True), (''FLOAT'', True), (''DOUBLE'', True), (''JSON'', True),
      (''UUID'', True)]"

definition ValidForeignKeyActions :: "string \<rightharpoonup> bool" where
  "ValidForeignKeyActions = map_of
     [(''CASCADE'', True), (''RESTRICT'', True), (''SET NULL'', True), (''NO ACTION'', True)]"

section \<open>Formatting helpers (fmt, strings)\<close>

definition digit :: "nat \<Rightarrow> char" where
  "digit n = char_of (48 + n)"

fun show_nat :: "nat \<Rightarrow> string" where
  "show_nat n = (if n < 10 then [digit n] else show_nat (n div 10) @ [digit (n mod 10)])"

declare show_nat.simps [simp del]

text \<open>The verb \<open>%d\<close> on an \<open>int\<close>.\<close>

definition show_int :: "int \<Rightarrow> string" where
  "show_int i = (if i < 0 then ''-'' @ show_nat (nat (- i)) else show_nat (nat i))"

text \<open>The verb \<open>%t\<close> on a \<open>bool\<close>.\<close>

definition show_bool :: "bool \<Rightarrow> string" where
  "show_bool b = (if b then ''true'' else ''false'')"

definition newline :: string where
  "newline = [CHR 0x0A]"

definition quote :: string where
  "quote = [CHR 0x27]"

text \<open>\<open>strings.Join(elems, sep)\<close>.\<close>

fun Join :: "string list \<Rightarrow> string \<Rightarrow> string" where
  "Join [] sep = []"
| "Join [x] sep = x"
| "Join (x # y # ys) sep = x @ sep @ Join (y # ys) sep"

section \<open>SQL generator (sqlGeneratorService)\<close>

text \<open>
  \<open>generateColumnDefinition\<close> writes four pieces to a \<open>strings.Builder\<close>: the name and a
  space, the data type chosen by the \<open>switch\<close>, the nullable constraint, and the default
  clauses.  The \<open>switch\<close> and the default clauses are named \<open>columnType\<close> and
  \<open>columnDefault\<close> here; \<open>generateColumnDefinition\<close> concatenates the pieces in the order
  the builder receives them.
\<close>

definition columnType :: "'f Column \<Rightarrow> string" where
  "columnType column =
    (if DataType column = ''INT'' then
       (if AutoIncrement column then ''SERIAL'' else ''INTEGER'')
     else if DataType column = ''BIGINT'' then
       (if AutoIncrement column then ''BIGSERIAL'' else ''BIGINT'')
     else if DataType column = ''VARCHAR'' then
       (let length = (case Length column of
                        None \<Rightarrow> 255
                      | Some l \<Rightarrow> if l > 0 then l else 255)
        in ''VARCHAR('' @ show_int length @ '')'')
     else if DataType column = ''TEXT'' then ''TEXT''
     else if DataType column = ''BOOLEAN'' then ''BOOLEAN''
     else if DataType column = ''TIMESTAMP'' then ''TIMESTAMP WITH TIME ZONE''
     else if DataType column = ''DATE'' then ''DATE''
     else if DataType column = ''TIME'' then ''TIME''
     else if DataType column = ''DECIMAL'' then
       (let precision = (case Precision column of None \<Rightarrow> 10 | Some p \<Rightarrow> p);
            scale = (case Scale column of None \<Rightarrow> 2 | Some s \<Rightarrow> s)
        in ''DECIMAL('' @ show_int precision @ '','' @ show_int scale @ '')'')
     else if DataType column = ''FLOAT'' then ''REAL''
     else if DataType column = ''DOUBLE'' then ''DOUBLE PRECISION''
     else if DataType column = ''JSON'' then ''JSONB''
     else if DataType column = ''UUID'' then ''UUID''
     else ''TEXT'')"

definition columnDefault :: "('f \<Rightarrow> string) \<Rightarrow> 'f Column \<Rightarrow> string" where
  "columnDefault fmt_v column =
    (case DefaultValue column of
       None \<Rightarrow> ''''
     | Some (JString v) \<Rightarrow> (if v \<noteq> '''' then '' DEFAULT '' @ quote @ v @ quote else '''')
     | Some (JBool v) \<Rightarrow> '' DEFAULT '' @ show_bool v
     | Some (JNumber v) \<Rightarrow> '' DEFAULT '' @ fmt_v v
     | Some JOther \<Rightarrow> '''')
    @ (if DataType column = ''UUID'' \<and> DefaultValue column = None
       then '' DEFAULT gen_random_uuid()'' else '''')
    @ (if DataType column = ''TIMESTAMP'' \<and> DefaultValue column = None
       then '' DEFAULT CURRENT_TIMESTAMP'' else '''')"

definition generateColumnDefinition :: "('f \<Rightarrow> string) \<Rightarrow> 'f Column \<Rightarrow> string" where
  "generateColumnDefinition fmt_v column =
     c_Name column @ '' '' @ columnType column
     @ (if \<not> Nullable column then '' NOT NULL'' else '''')
     @ columnDefault fmt_v column"

text \<open>
  The inner loop of \<open>GenerateCreateTables\<close> over the columns of one table, with its three
  accumulators \<open>columns\<close>, \<open>primaryKeys\<close> and \<open>uniqueConstraints\<close>.
\<close>

fun columnsLoop :: "('f \<Rightarrow> string) \<Rightarrow> 'f Column list
    \<Rightarrow> string list \<times> string list \<times> string list \<Rightarrow> string list \<times> string list \<times> string list" where
  "columnsLoop fmt_v [] acc = acc"
| "columnsLoop fmt_v (column # rest) (columns, primaryKeys, uniqueConstraints) =
     columnsLoop fmt_v rest
       (columns @ [generateColumnDefinition fmt_v column],
        (if PrimaryKey column then primaryKeys @ [c_Name column] else primaryKeys),
        (if Unique column \<and> \<not> PrimaryKey column
         then uniqueConstraints @ [''UNIQUE ('' @ c_Name column @ '')'']
         else uniqueConstraints))"

text \<open>The loop that appends one line per unique constraint to the statement.\<close>

fun appendConstraints :: "string \<Rightarrow> string list \<Rightarrow> string" where
  "appendConstraints statement [] = statement"
| "appendConstraints statement (constraint # rest) =
     appendConstraints (statement @ '','' @ newline @ ''    '' @ constraint) rest"

text \<open>The body of the loop over the tables: the statement built for one table.\<close>

definition createTableStatement :: "('f \<Rightarrow> string) \<Rightarrow> 'f Table \<Rightarrow> string" where
  "createTableStatement fmt_v table =
    (case columnsLoop fmt_v (Columns table) ([], [], []) of
       (columns, primaryKeys, uniqueConstraints) \<Rightarrow>
         (let statement = ''CREATE TABLE '' @ t_Name table @ '' ('' @ newline;
              statement = statement @ ''    '' @ Join columns ('','' @ newline @ ''    '');
              statement = (if length primaryKeys > 0
                           then statement @ '','' @ newline @ ''    PRIMARY KEY (''
                                @ Join primaryKeys '', '' @ '')''
                           else statement);
              statement = appendConstraints statement uniqueConstraints
          in statement @ newline @ '');''))"

fun tablesLoop :: "('f \<Rightarrow> string) \<Rightarrow> 'f Table list \<Rightarrow> string list \<Rightarrow> string list" where
  "tablesLoop fmt_v [] statements = statements"
| "tablesLoop fmt_v (table # rest) statements =
     tablesLoop fmt_v rest (statements @ [createTableStatement fmt_v table])"

text \<open>
  The generator functions return \<open>([]string, error)\<close>; the error is \<open>Inl\<close> with its
  message.  Neither function has a \<open>return\<close> with a non-nil error.
\<close>

definition GenerateCreateTables :: "('f \<Rightarrow> string) \<Rightarrow> 'f SchemaData \<Rightarrow> string + string list" where
  "GenerateCreateTables fmt_v schemaData = Inr (tablesLoop fmt_v (Tables schemaData) [])"

text \<open>
  The lookup maps of \<open>GenerateForeignKeys\<close>: one pass over the tables fills \<open>tableMap\<close>,
  and for each table a pass over its columns fills \<open>columnMap\<close>.
\<close>

fun columnMapLoop :: "'f Column list \<Rightarrow> (string \<rightharpoonup> string) \<Rightarrow> (string \<rightharpoonup> string)" where
  "columnMapLoop [] columnMap = columnMap"
| "columnMapLoop (column # rest) columnMap =
     columnMapLoop rest (columnMap(c_ID column \<mapsto> c_Name column))"

fun mapsLoop :: "'f Table list \<Rightarrow> (string \<rightharpoonup> string) \<times> (string \<rightharpoonup> string)
    \<Rightarrow> (string \<rightharpoonup> string) \<times> (string \<rightharpoonup> string)" where
  "mapsLoop [] maps = maps"
| "mapsLoop (table # rest) (tableMap, columnMap) =
     mapsLoop rest (tableMap(t_ID table \<mapsto> t_Name table), columnMapLoop (Columns table) columnMap)"

definition tableMap :: "'f SchemaData \<Rightarrow> (string \<rightharpoonup> string)" where
  "tableMap schemaData = fst (mapsLoop (Tables schemaData) (Map.empty, Map.empty))"

definition columnMap :: "'f SchemaData \<Rightarrow> (string \<rightharpoonup> string)" where
  "columnMap schemaData = snd (mapsLoop (Tables schemaData) (Map.empty, Map.empty))"

text \<open>The statement built for a foreign key once its four names are resolved.\<close>

definition foreignKeyStatement :: "ForeignKey \<Rightarrow> string \<Rightarrow> string \<Rightarrow> string \<Rightarrow> string \<Rightarrow> string" where
  "foreignKeyStatement fk sourceTable sourceColumn targetTable targetColumn =
    (let constraintName = (if fk_Name fk = '''' then ''fk_'' @ sourceTable @ ''_'' @ sourceColumn
                           else fk_Name fk);
         onDelete = (if OnDelete fk \<noteq> '''' \<and> lookup_bool ValidForeignKeyActions (OnDelete fk)
                     then OnDelete fk else ''RESTRICT'');
         onUpdate = (if OnUpdate fk \<noteq> '''' \<and> lookup_bool ValidForeignKeyActions (OnUpdate fk)
                     then OnUpdate fk else ''RESTRICT'')
     in ''ALTER TABLE '' @ sourceTable @ '' ADD CONSTRAINT '' @ constraintName
        @ '' FOREIGN KEY ('' @ sourceColumn @ '') REFERENCES '' @ targetTable
        @ '' ('' @ targetColumn @ '') ON DELETE '' @ onDelete @ '' ON UPDATE '' @ onUpdate @ '';'')"

fun foreignKeysLoop :: "(string \<rightharpoonup> string) \<Rightarrow> (string \<rightharpoonup> string) \<Rightarrow> ForeignKey list
    \<Rightarrow> string list \<Rightarrow> string list" where
  "foreignKeysLoop tm cm [] statements = statements"
| "foreignKeysLoop tm cm (fk # rest) statements =
     (case (tm (SourceTableId fk), tm (TargetTableId fk),
            cm (SourceColumnId fk), cm (TargetColumnId fk)) of
        (Some sourceTable, Some targetTable, Some sourceColumn, Some targetColumn) \<Rightarrow>
          foreignKeysLoop tm cm rest
            (statements @ [foreignKeyStatement fk sourceTable sourceColumn targetTable targetColumn])
      | _ \<Rightarrow> foreignKeysLoop tm cm rest statements)"

definition GenerateForeignKeys :: "'f SchemaData \<Rightarrow> string + string list" where
  "GenerateForeignKeys schemaData =
     Inr (foreignKeysLoop (tableMap schemaData) (columnMap schemaData) (ForeignKeys schemaData) [])"

section \<open>Validator (validatorService)\<close>

text \<open>The loop with \<open>break\<close> that looks for a primary-key column.\<close>

fun hasPrimaryKey :: "'f Column list \<Rightarrow> bool" where
  "hasPrimaryKey [] = False"
| "hasPrimaryKey (column # rest) = (if PrimaryKey column then True else hasPrimaryKey rest)"

text \<open>The error appended for column \<open>j\<close> of table \<open>i\<close> when its data type is not supported.\<close>

definition unsupportedDataType :: "nat \<Rightarrow> nat \<Rightarrow> 'f Column \<Rightarrow> ValidationError" where
  "unsupportedDataType i j column =
     \<lparr>Field = ''tables['' @ show_int (int i) @ ''].columns['' @ show_int (int j) @ ''].dataType'',
      Message = ''Unsupported data type: '' @ DataType column,
      Code = ''UNSUPPORTED_DATA_TYPE''\<rparr>"

text \<open>The warning appended for a table without a primary-key column.\<close>

definition noPrimaryKey :: "'f Table \<Rightarrow> string" where
  "noPrimaryKey table = ''Table '' @ quote @ t_Name table @ quote @ '' has no primary key defined''"

text \<open>The loop over the columns of table \<open>i\<close> that validates the data types; \<open>j\<close> is the index.\<close>

fun dataTypesLoop :: "nat \<Rightarrow> nat \<Rightarrow> 'f Column list \<Rightarrow> ValidationError list \<Rightarrow> ValidationError list" where
  "dataTypesLoop i j [] errors = errors"
| "dataTypesLoop i j (column # rest) errors =
     dataTypesLoop i (Suc j) rest
       (if \<not> lookup_bool SupportedDataTypes (DataType column)
        then errors @ [unsupportedDataType i j column]
        else errors)"

fun validateTablesLoop :: "nat \<Rightarrow> 'f Table list \<Rightarrow> ValidationError list \<times> string list
    \<Rightarrow> ValidationError list \<times> string list" where
  "validateTablesLoop i [] acc = acc"
| "validateTablesLoop i (table # rest) (errors, warnings) =
     validateTablesLoop (Suc i) rest
       (dataTypesLoop i 0 (Columns table) errors,
        (if \<not> hasPrimaryKey (Columns table)
         then warnings @ [noPrimaryKey table]
         else warnings))"

text \<open>The error appended when the request has no table.\<close>

definition missingTables :: ValidationError where
  "missingTables = \<lparr>Field = ''tables'', Message = ''At least one table is required'',
                     Code = ''MISSING_TABLES''\<rparr>"

definition ValidateSchema :: "'f SchemaValidationRequest \<Rightarrow> string + ValidationResult" where
  "ValidateSchema request =
    (let errors = (if length (svr_Tables request) = 0 then [missingTables] else [])
     in case validateTablesLoop 0 (svr_Tables request) (errors, []) of
          (errors, warnings) \<Rightarrow>
            Inr \<lparr>Valid = (length errors = 0), Errors = errors, Warnings = warnings,
                 GeneratedSQL = []\<rparr>)"

section \<open>Database lifecycle (package config, databaseManagerService)\<close>

text \<open>
  The program reaches a database server through \<open>gorm.Open(postgres.Open(dsn), ...)\<close> and
  \<open>db.Exec(sql)\<close>.  The server is a parameter: a function \<open>be\<close> from a call and the state
  \<open>'w\<close> of the outside world to the call's error (\<open>None\<close> for \<open>nil\<close>, \<open>Some\<close> of the
  error's message otherwise) and the next state of the world.  A connection is named by
  the \<open>dsn\<close> it was opened with.  The state of a run holds the world, the calls made so far
  with their outcomes, and the lines written with \<open>log.Printf\<close>.
\<close>

datatype call = Open string | Exec string string

type_synonym 'w backend = "call \<Rightarrow> 'w \<Rightarrow> string option \<times> 'w"

record 'w io =
  world :: 'w
  calls :: "(call \<times> string option) list"
  logs :: "string list"

record Config =
  Environment :: string
  Port :: string
  DatabaseURL :: string
  DatabaseHost :: string
  DatabasePort :: string
  DatabaseUser :: string
  DatabasePass :: string
  DatabaseName :: string
  LogLevel :: string
  AllowOrigins :: "string list"
  ClerkSecretKey :: string

definition perform :: "'w backend \<Rightarrow> call \<Rightarrow> 'w io \<Rightarrow> string option \<times> 'w io" where
  "perform be c s =
     (case be c (world s) of
        (r, w) \<Rightarrow> (r, s\<lparr>world := w, calls := calls s @ [(c, r)]\<rparr>))"

definition log_Printf :: "string \<Rightarrow> 'w io \<Rightarrow> 'w io" where
  "log_Printf line s = s\<lparr>logs := logs s @ [line]\<rparr>"

text \<open>The \<open>dsn\<close> of the administrative database, as both functions of package config build it.\<close>

definition postgresDSN :: "Config \<Rightarrow> string" where
  "postgresDSN config =
     (if DatabaseURL config \<noteq> '''' then DatabaseURL config @ ''_postgres''
      else ''host='' @ DatabaseHost config @ '' port='' @ DatabasePort config
           @ '' user='' @ DatabaseUser config @ '' password='' @ DatabasePass config
           @ '' dbname=postgres sslmode=disable'')"

definition CreateDynamicDatabase :: "'w backend \<Rightarrow> Config \<Rightarrow> string \<Rightarrow> 'w io \<Rightarrow> string option \<times> 'w io" where
  "CreateDynamicDatabase be config databaseName s =
    (let dsn = postgresDSN config in
     case perform be (Open dsn) s of
       (Some err, s) \<Rightarrow> (Some (''failed to connect to postgres database: '' @ err), s)
     | (None, s) \<Rightarrow>
         (let createSQL = ''CREATE DATABASE '' @ databaseName in
          case perform be (Exec dsn createSQL) s of
            (Some err, s) \<Rightarrow>
              (Some (''failed to create database '' @ databaseName @ '': '' @ err), s)
          | (None, s) \<Rightarrow>
              (None, log_Printf (''Database '' @ databaseName @ '' created successfully'') s)))"

definition DropDynamicDatabase :: "'w backend \<Rightarrow> Config \<Rightarrow> string \<Rightarrow> 'w io \<Rightarrow> string option \<times> 'w io" where
  "DropDynamicDatabase be config databaseName s =
    (let dsn = postgresDSN config in
     case perform be (Open dsn) s of
       (Some err, s) \<Rightarrow> (Some (''failed to connect to postgres database: '' @ err), s)
     | (None, s) \<Rightarrow>
         (let dropSQL = ''DROP DATABASE IF EXISTS '' @ databaseName in
          case perform be (Exec dsn dropSQL) s of
            (Some err, s) \<Rightarrow>
              (Some (''failed to drop database '' @ databaseName @ '': '' @ err), s)
          | (None, s) \<Rightarrow>
              (None, log_Printf (''Database '' @ databaseName @ '' dropped successfully'') s)))"

definition CreateDatabase :: "'w backend \<Rightarrow> Config \<Rightarrow> string \<Rightarrow> 'w io \<Rightarrow> string option \<times> 'w io" where
  "CreateDatabase be config databaseName s = CreateDynamicDatabase be config databaseName s"

definition DropDatabase :: "'w backend \<Rightarrow> Config \<Rightarrow> string \<Rightarrow> 'w io \<Rightarrow> string option \<times> 'w io" where
  "DropDatabase be config databaseName s = DropDynamicDatabase be config databaseName s"

text \<open>The \<open>dsn\<close> of the new database in \<open>RegenerateDatabase\<close>.\<close>

definition targetDSN :: "Config \<Rightarrow> string \<Rightarrow> string" where
  "targetDSN config databaseName =
     ''host='' @ DatabaseHost config @ '' port='' @ DatabasePort config
     @ '' user='' @ DatabaseUser config @ '' password='' @ DatabasePass config
     @ '' dbname='' @ databaseName @ '' sslmode=disable''"

text \<open>
  The two statement loops of \<open>RegenerateDatabase\<close> differ in the text of the error only,
  which is the parameter \<open>what\<close>.  The loop returns at the first statement that fails.
\<close>

fun execLoop :: "'w backend \<Rightarrow> string \<Rightarrow> string \<Rightarrow> string list \<Rightarrow> 'w io \<Rightarrow> string option \<times> 'w io" where
  "execLoop be dsn what [] s = (None, s)"
| "execLoop be dsn what (statement # rest) s =
     (case perform be (Exec dsn statement) s of
        (Some err, s) \<Rightarrow> (Some (what @ err @ newline @ ''Statement: '' @ statement), s)
      | (None, s) \<Rightarrow> execLoop be dsn what rest s)"

definition RegenerateDatabase :: "'w backend \<Rightarrow> ('f \<Rightarrow> string) \<Rightarrow> Config \<Rightarrow> 'f SchemaData \<Rightarrow> string
    \<Rightarrow> 'w io \<Rightarrow> string option \<times> 'w io" where
  "RegenerateDatabase be fmt_v config schemaData databaseName s =
    (case DropDatabase be config databaseName s of (dropped, s) \<Rightarrow>
      (let s = (case dropped of
                  Some err \<Rightarrow> log_Printf (''Warning: Failed to drop database '' @ databaseName
                                           @ '': '' @ err) s
                | None \<Rightarrow> s) in
       (case CreateDatabase be config databaseName s of
          (Some err, s) \<Rightarrow> (Some (''failed to create database: '' @ err), s)
        | (None, s) \<Rightarrow>
       (let dsn = targetDSN config databaseName in
       (case perform be (Open dsn) s of
          (Some err, s) \<Rightarrow> (Some (''failed to connect to new database: '' @ err), s)
        | (None, s) \<Rightarrow>
       (case GenerateCreateTables fmt_v schemaData of
          Inl err \<Rightarrow> (Some (''failed to generate table statements: '' @ err), s)
        | Inr tableStatements \<Rightarrow>
       (case execLoop be dsn ''failed to execute table statement: '' tableStatements s of
          (Some err, s) \<Rightarrow> (Some err, s)
        | (None, s) \<Rightarrow>
       (case GenerateForeignKeys schemaData of
          Inl err \<Rightarrow> (Some (''failed to generate foreign key statements: '' @ err), s)
        | Inr fkStatements \<Rightarrow>
       (case execLoop be dsn ''failed to execute foreign key statement: '' fkStatements s of
          (Some err, s) \<Rightarrow> (Some err, s)
        | (None, s) \<Rightarrow>
            (None, log_Printf (''Successfully regenerated database '' @ databaseName @ '' with ''
                               @ show_int (int (length (Tables schemaData))) @ '' tables'') s))))))))))"


section \<open>Schema service (schemaService)\<close>

text \<open>
  A \<open>uuid.UUID\<close> is modelled by its text.  The struct \<open>Schema\<close> is the one the service
  fills in, with the field \<open>UserID\<close> it assigns; the time stamps that only the store
  writes are left out.  The requests of create and update have the same four fields.
\<close>

record 'f Schema =
  s_ID :: string
  s_Name :: string
  s_Description :: string
  s_DatabaseName :: string
  Status :: string
  s_Version :: string
  UserID :: string
  SchemaDefinition :: "'f SchemaData"

record 'f CreateSchemaRequest =
  csr_Name :: string
  csr_Description :: string
  csr_Tables :: "'f Table list"
  csr_ForeignKeys :: "ForeignKey list"

record 'f UpdateSchemaRequest =
  usr_Name :: string
  usr_Description :: string
  usr_Tables :: "'f Table list"
  usr_ForeignKeys :: "ForeignKey list"

text \<open>
  The repository is the interface \<open>repositories.SchemaRepository\<close>; its implementation
  queries the metadata database and is a parameter here, acting on the world.
\<close>

record ('f, 'w) SchemaRepository =
  repo_Create :: "'f Schema \<Rightarrow> 'w \<Rightarrow> string option \<times> 'w"
  repo_Update :: "'f Schema \<Rightarrow> 'w \<Rightarrow> string option \<times> 'w"
  repo_GetByNameAndUserID :: "string \<Rightarrow> string \<Rightarrow> 'w \<Rightarrow> (string + 'f Schema) \<times> 'w"
  repo_GetByIDAndUserID :: "string \<Rightarrow> string \<Rightarrow> 'w \<Rightarrow> (string + 'f Schema) \<times> 'w"

definition repoCall :: "('w \<Rightarrow> 'a \<times> 'w) \<Rightarrow> 'w io \<Rightarrow> 'a \<times> 'w io" where
  "repoCall f s = (case f (world s) of (r, w) \<Rightarrow> (r, s\<lparr>world := w\<rparr>))"

text \<open>\<open>strings.ReplaceAll(s, "-", "_")\<close>.\<close>

definition dashesToUnderscores :: "string \<Rightarrow> string" where
  "dashesToUnderscores s = map (\<lambda>c. if c = CHR ''-'' then CHR ''_'' else c) s"

text \<open>
  \<open>CreateSchema\<close> draws two fresh identifiers with \<open>uuid.New()\<close> and reads the clock; the
  three values are the parameters \<open>uuid1\<close>, \<open>uuid2\<close> and \<open>now\<close>.
\<close>

definition CreateSchema :: "'w backend \<Rightarrow> ('f \<Rightarrow> string) \<Rightarrow> ('f, 'w) SchemaRepository \<Rightarrow> Config
    \<Rightarrow> string \<Rightarrow> string \<Rightarrow> string \<Rightarrow> 'f CreateSchemaRequest \<Rightarrow> string \<Rightarrow> 'w io
    \<Rightarrow> (string + 'f Schema) \<times> 'w io" where
  "CreateSchema be fmt_v repo config uuid1 uuid2 now request userID s =
    (case repoCall (repo_GetByNameAndUserID repo (csr_Name request) userID) s of
       (Inr existing, s) \<Rightarrow>
         (Inl (''schema with name '' @ quote @ csr_Name request @ quote @ '' already exists''), s)
     | (Inl notFound, s) \<Rightarrow>
      (let databaseName = ''schema_'' @ dashesToUnderscores uuid1;
           schema = \<lparr>s_ID = uuid2, s_Name = csr_Name request,
                     s_Description = csr_Description request, s_DatabaseName = databaseName,
                     Status = ''creating'', s_Version = ''1.0'', UserID = userID,
                     SchemaDefinition = \<lparr>Tables = csr_Tables request,
                                          ForeignKeys = csr_ForeignKeys request,
                                          Version = ''1.0'', ExportedAt = now\<rparr>\<rparr> in
       (case repoCall (repo_Create repo schema) s of
          (Some err, s) \<Rightarrow> (Inl (''failed to create schema: '' @ err), s)
        | (None, s) \<Rightarrow>
       (case RegenerateDatabase be fmt_v config (SchemaDefinition schema) (s_DatabaseName schema) s of
          (Some err, s) \<Rightarrow>
            (let schema = schema\<lparr>Status := ''error''\<rparr> in
             (case repoCall (repo_Update repo schema) s of
                (ignored, s) \<Rightarrow> (Inl (''failed to generate database: '' @ err), s)))
        | (None, s) \<Rightarrow>
            (let schema = schema\<lparr>Status := ''created''\<rparr> in
             (case repoCall (repo_Update repo schema) s of
                (Some err, s) \<Rightarrow>
                  (Inr schema, log_Printf (''Warning: failed to update schema status: '' @ err) s)
              | (None, s) \<Rightarrow> (Inr schema, s)))))))"

definition UpdateSchema :: "'w backend \<Rightarrow> ('f \<Rightarrow> string) \<Rightarrow> ('f, 'w) SchemaRepository \<Rightarrow> Config
    \<Rightarrow> string \<Rightarrow> string \<Rightarrow> string \<Rightarrow> 'f UpdateSchemaRequest \<Rightarrow> 'w io
    \<Rightarrow> (string + 'f Schema) \<times> 'w io" where
  "UpdateSchema be fmt_v repo config now ident userID request s =
    (case repoCall (repo_GetByIDAndUserID repo ident userID) s of
       (Inl err, s) \<Rightarrow> (Inl err, s)
     | (Inr schema, s) \<Rightarrow>
      (case (if s_Name schema \<noteq> usr_Name request
             then (case repoCall (repo_GetByNameAndUserID repo (usr_Name request) userID) s of
                     (Inr existing, s) \<Rightarrow> (s_ID existing \<noteq> ident, s)
                   | (Inl notFound, s) \<Rightarrow> (False, s))
             else (False, s)) of
         (True, s) \<Rightarrow>
           (Inl (''schema with name '' @ quote @ usr_Name request @ quote @ '' already exists''), s)
       | (False, s) \<Rightarrow>
        (let schema = schema\<lparr>s_Name := usr_Name request,
                              s_Description := usr_Description request,
                              Status := ''updating'',
                              SchemaDefinition := \<lparr>Tables = usr_Tables request,
                                                    ForeignKeys = usr_ForeignKeys request,
                                                    Version = ''1.1'', ExportedAt = now\<rparr>\<rparr> in
         (case repoCall (repo_Update repo schema) s of
            (Some err, s) \<Rightarrow> (Inl (''failed to update schema: '' @ err), s)
          | (None, s) \<Rightarrow>
         (case RegenerateDatabase be fmt_v config (SchemaDefinition schema) (s_DatabaseName schema) s of
            (Some err, s) \<Rightarrow>
              (let schema = schema\<lparr>Status := ''error''\<rparr> in
               (case repoCall (repo_Update repo schema) s of
                  (ignored, s) \<Rightarrow> (Inl (''failed to regenerate database: '' @ err), s)))
          | (None, s) \<Rightarrow>
              (let schema = schema\<lparr>Status := ''updated''\<rparr> in
               (case repoCall (repo_Update repo schema) s of
                  (Some err, s) \<Rightarrow>
                    (Inr schema, log_Printf (''Warning: failed to update schema status: '' @ err) s)
                | (None, s) \<Rightarrow> (Inr schema, s))))))))"


section \<open>Reference definitions and example inputs\<close>

text \<open>
  A column as the JSON decoder leaves it when only \<open>id\<close>, \<open>name\<close> and \<open>dataType\<close> are
  present: every other field has Go's zero value.
\<close>

definition jsonColumn :: "string \<Rightarrow> string \<Rightarrow> string \<Rightarrow> 'f Column" where
  "jsonColumn ident name dataType =
     \<lparr>c_ID = ident, c_Name = name, DataType = dataType, Length = None, Precision = None,
      Scale = None, Nullable = False, PrimaryKey = False, AutoIncrement = False,
      Unique = False, DefaultValue = None\<rparr>"

definition jsonTable :: "string \<Rightarrow> string \<Rightarrow> int Column list \<Rightarrow> int Table" where
  "jsonTable ident name columns =
     \<lparr>t_ID = ident, t_Name = name, Columns = columns, Position = (0, 0), Indexes = []\<rparr>"

text \<open>The names of the data types the spec's mapping table lists.\<close>

definition dataTypeNames :: "string set" where
  "dataTypeNames = {''INT'', ''BIGINT'', ''VARCHAR'', ''TEXT'', ''BOOLEAN'', ''TIMESTAMP'',
                    ''DATE'', ''TIME'', ''DECIMAL'', ''FLOAT'', ''DOUBLE'', ''JSON'', ''UUID''}"

text \<open>A column whose default value is explicitly the empty string.\<close>

definition emptyDefaultColumn :: "int Column" where
  "emptyDefaultColumn = (jsonColumn ''c1'' ''note'' ''TEXT'')
     \<lparr>Nullable := True, DefaultValue := Some (JString '''')\<rparr>"

text \<open>
  Two validation requests: a table of supported types without a primary key, and a table
  with a column of the unsupported type \<open>MONEY\<close>.
\<close>

definition requestNoPrimaryKey :: "int SchemaValidationRequest" where
  "requestNoPrimaryKey =
     \<lparr>svr_Name = ''shop'',
      svr_Tables = [jsonTable ''t1'' ''logs'' [jsonColumn ''c1'' ''line'' ''TEXT'']],
      svr_ForeignKeys = []\<rparr>"

definition requestMoney :: "int SchemaValidationRequest" where
  "requestMoney =
     \<lparr>svr_Name = ''shop'',
      svr_Tables = [jsonTable ''t1'' ''items''
                      [(jsonColumn ''c1'' ''id'' ''INT'')\<lparr>PrimaryKey := True\<rparr>,
                       jsonColumn ''c2'' ''price'' ''MONEY'']],
      svr_ForeignKeys = []\<rparr>"

text \<open>The four actions the spec lists for \<open>onDelete\<close> and \<open>onUpdate\<close>.\<close>

definition foreignKeyActions :: "string set" where
  "foreignKeyActions = {''CASCADE'', ''RESTRICT'', ''SET NULL'', ''NO ACTION''}"

text \<open>
  For a foreign key of a schema: one of the four lookups of \<open>GenerateForeignKeys\<close> finds
  nothing.
\<close>

definition lookupFails :: "'f SchemaData \<Rightarrow> ForeignKey \<Rightarrow> bool" where
  "lookupFails sd fk \<longleftrightarrow>
     tableMap sd (SourceTableId fk) = None \<or> tableMap sd (TargetTableId fk) = None
     \<or> columnMap sd (SourceColumnId fk) = None \<or> columnMap sd (TargetColumnId fk) = None"

text \<open>The statements the loop of \<open>GenerateForeignKeys\<close> adds for one foreign key.\<close>

definition emittedFor :: "'f SchemaData \<Rightarrow> ForeignKey \<Rightarrow> string list" where
  "emittedFor sd fk = foreignKeysLoop (tableMap sd) (columnMap sd) [fk] []"

text \<open>All columns of a schema, table after table.\<close>

definition allColumns :: "'f SchemaData \<Rightarrow> 'f Column list" where
  "allColumns sd = concat (map Columns (Tables sd))"

text \<open>
  The schema of the round-trip scenario: table \<open>users\<close> with \<open>id\<close> and \<open>email\<close>, table
  \<open>posts\<close> with \<open>id\<close> and \<open>user_id\<close>, and the foreign key from \<open>posts.user_id\<close> to
  \<open>users.id\<close>.  The identifiers and the name of the foreign key, which the scenario
  leaves open, are parameters.
\<close>

definition roundTripSchema :: "string \<Rightarrow> string \<Rightarrow> string \<Rightarrow> string \<Rightarrow> string \<Rightarrow> string
    \<Rightarrow> string \<Rightarrow> int SchemaData" where
  "roundTripSchema usersId postsId idId emailId postIdId userIdId fkName =
     \<lparr>Tables =
        [jsonTable usersId ''users''
           [(jsonColumn idId ''id'' ''INT'')\<lparr>PrimaryKey := True, AutoIncrement := True\<rparr>,
            (jsonColumn emailId ''email'' ''VARCHAR'')\<lparr>Length := Some 255, Unique := True\<rparr>],
         jsonTable postsId ''posts''
           [(jsonColumn postIdId ''id'' ''INT'')\<lparr>PrimaryKey := True, AutoIncrement := True\<rparr>,
            jsonColumn userIdId ''user_id'' ''INT'']],
      ForeignKeys =
        [\<lparr>fk_ID = ''fk1'', fk_Name = fkName, SourceTableId = postsId, SourceColumnId = userIdId,
          TargetTableId = usersId, TargetColumnId = idId,
          OnDelete = ''CASCADE'', OnUpdate = ''RESTRICT''\<rparr>],
      Version = ''1.0'', ExportedAt = ''''\<rparr>"

definition blogSchema :: "int SchemaData" where
  "blogSchema = roundTripSchema ''t1'' ''t2'' ''c1'' ''c2'' ''c3'' ''c4'' ''''"

text \<open>A foreign key whose target table is not in \<open>blogSchema\<close>.\<close>

definition danglingForeignKey :: ForeignKey where
  "danglingForeignKey =
     \<lparr>fk_ID = ''fk0'', fk_Name = ''fk_lost'', SourceTableId = ''t2'', SourceColumnId = ''c4'',
      TargetTableId = ''t9'', TargetColumnId = ''c1'', OnDelete = ''CASCADE'', OnUpdate = ''''\<rparr>"

text \<open>
  A schema in which the identifier \<open>c1\<close> names a column of each table, and a foreign key
  from table \<open>users\<close> whose source column \<open>c9\<close> is a column of table \<open>posts\<close>.
\<close>

definition sharedIdSchema :: "int SchemaData" where
  "sharedIdSchema =
     \<lparr>Tables =
        [jsonTable ''t1'' ''users'' [jsonColumn ''c1'' ''id'' ''INT''],
         jsonTable ''t2'' ''posts'' [jsonColumn ''c1'' ''pid'' ''INT'',
                                     jsonColumn ''c9'' ''author'' ''INT'']],
      ForeignKeys =
        [\<lparr>fk_ID = ''fk1'', fk_Name = '''', SourceTableId = ''t1'', SourceColumnId = ''c9'',
          TargetTableId = ''t2'', TargetColumnId = ''c1'', OnDelete = '''', OnUpdate = ''DROP''\<rparr>],
      Version = ''1.0'', ExportedAt = ''''\<rparr>"

text \<open>
  The reference for a sequence of calls that stops at the first failure: \<open>runPlan\<close> makes
  the calls of a plan in order against the outside world, records each call with its
  outcome, and makes no call after one that failed.
\<close>

fun runPlan :: "'w backend \<Rightarrow> call list \<Rightarrow> 'w \<Rightarrow> (call \<times> string option) list \<times> 'w" where
  "runPlan be [] w = ([], w)"
| "runPlan be (c # plan) w =
     (case be c w of
        (Some err, w') \<Rightarrow> ([(c, Some err)], w')
      | (None, w') \<Rightarrow> (case runPlan be plan w' of (trace, w'') \<Rightarrow> ((c, None) # trace, w'')))"

text \<open>The two calls of \<open>DropDatabase\<close>.\<close>

definition dropPlan :: "Config \<Rightarrow> string \<Rightarrow> call list" where
  "dropPlan config databaseName =
     [Open (postgresDSN config),
      Exec (postgresDSN config) (''DROP DATABASE IF EXISTS '' @ databaseName)]"

text \<open>
  The calls of a regeneration after the drop: create the database (connect to the
  administrative database, \<open>CREATE DATABASE\<close>), connect to the new database, then every
  \<open>CREATE TABLE\<close> statement, then every \<open>ALTER TABLE\<close> statement.
\<close>

definition regenerationPlan :: "Config \<Rightarrow> string \<Rightarrow> string list \<Rightarrow> string list \<Rightarrow> call list" where
  "regenerationPlan config databaseName tableStatements fkStatements =
     [Open (postgresDSN config),
      Exec (postgresDSN config) (''CREATE DATABASE '' @ databaseName),
      Open (targetDSN config databaseName)]
     @ map (Exec (targetDSN config databaseName)) tableStatements
     @ map (Exec (targetDSN config databaseName)) fkStatements"

text \<open>
  The error a regeneration returns when call number \<open>k\<close> of its plan (counted from 0)
  fails with message \<open>m\<close>.
\<close>

definition failureText :: "string \<Rightarrow> string list \<Rightarrow> string list \<Rightarrow> nat \<Rightarrow> string \<Rightarrow> string" where
  "failureText databaseName tableStatements fkStatements k m =
     (if k = 0 then ''failed to create database: failed to connect to postgres database: '' @ m
      else if k = 1 then ''failed to create database: failed to create database ''
                          @ databaseName @ '': '' @ m
      else if k = 2 then ''failed to connect to new database: '' @ m
      else if k < 3 + length tableStatements
        then ''failed to execute table statement: '' @ m @ newline @ ''Statement: ''
             @ tableStatements ! (k - 3)
      else ''failed to execute foreign key statement: '' @ m @ newline @ ''Statement: ''
           @ fkStatements ! (k - 3 - length tableStatements))"

text \<open>
  Example surroundings: the configuration of \<open>config.Load\<close> with no environment variable
  set, a server on which every call succeeds, a server on which \<open>DROP DATABASE\<close> and every
  \<open>ALTER TABLE\<close> fail, and the state before the first call.  Their world counts the calls.
\<close>

definition defaultConfig :: Config where
  "defaultConfig =
     \<lparr>Environment = ''development'', Port = ''8080'', DatabaseURL = '''',
      DatabaseHost = ''localhost'', DatabasePort = ''5432'', DatabaseUser = ''postgres'',
      DatabasePass = ''postgres'', DatabaseName = ''vdt_dashboard'', LogLevel = ''info'',
      AllowOrigins = [''http://localhost:3000'', ''http://localhost:6006''],
      ClerkSecretKey = ''''\<rparr>"

definition okBackend :: "nat backend" where
  "okBackend c w = (None, Suc w)"

definition flakyBackend :: "nat backend" where
  "flakyBackend c w =
     (case c of
        Open dsn \<Rightarrow> (None, Suc w)
      | Exec dsn sql \<Rightarrow>
          if take 4 sql = ''DROP'' then (Some ''database is in use'', Suc w)
          else if take 5 sql = ''ALTER'' then (Some ''permission denied'', Suc w)
          else (None, Suc w))"

definition initial :: "nat io" where
  "initial = \<lparr>world = 0, calls = [], logs = []\<rparr>"

text \<open>
  A repository in which no schema has the requested name and \<open>storedSchema\<close> is found by
  identifier, and the requests that create and update a schema with the tables of
  \<open>requestMoney\<close>.
\<close>

definition storedSchema :: "int Schema" where
  "storedSchema =
     \<lparr>s_ID = ''7d444840-9dc0-11d1-b245-5ffdce74fad2'', s_Name = ''shop'', s_Description = '''',
      s_DatabaseName = ''schema_old'', Status = ''created'', s_Version = ''1.0'',
      UserID = ''u1'', SchemaDefinition = blogSchema\<rparr>"

definition exampleRepository :: "(int, nat) SchemaRepository" where
  "exampleRepository =
     \<lparr>repo_Create = (\<lambda>schema w. (None, w)),
      repo_Update = (\<lambda>schema w. (None, w)),
      repo_GetByNameAndUserID = (\<lambda>name userID w. (Inl ''record not found'', w)),
      repo_GetByIDAndUserID = (\<lambda>ident userID w. (Inr storedSchema, w))\<rparr>"

definition createMoney :: "int CreateSchemaRequest" where
  "createMoney =
     \<lparr>csr_Name = svr_Name requestMoney, csr_Description = '''',
      csr_Tables = svr_Tables requestMoney, csr_ForeignKeys = svr_ForeignKeys requestMoney\<rparr>"

definition updateMoney :: "int UpdateSchemaRequest" where
  "updateMoney =
     \<lparr>usr_Name = svr_Name requestMoney, usr_Description = '''',
      usr_Tables = svr_Tables requestMoney, usr_ForeignKeys = svr_ForeignKeys requestMoney\<rparr>"

section \<open>Type mapping and default clause of a column definition\<close>

text \<open>
  Claim C2.  For every column, \<open>generateColumnDefinition\<close> emits, after the column name and
  a space and before the nullable and default clauses, the SQL type of the mapping table:
  \<open>INT\<close> gives \<open>INTEGER\<close> (\<open>SERIAL\<close> with \<open>autoIncrement\<close>), \<open>BIGINT\<close> gives \<open>BIGINT\<close>
  (\<open>BIGSERIAL\<close> with \<open>autoIncrement\<close>), \<open>VARCHAR\<close> gives \<open>VARCHAR(n)\<close> with the given
  length \<open>n\<close>, or 255 when the length is absent or not positive, \<open>TEXT\<close>, \<open>BOOLEAN\<close>,
  \<open>DATE\<close>, \<open>TIME\<close> and \<open>UUID\<close> give themselves, \<open>TIMESTAMP\<close> gives
  \<open>TIMESTAMP WITH TIME ZONE\<close>, \<open>DECIMAL\<close> gives \<open>DECIMAL(p,s)\<close> with \<open>p\<close> defaulting to
  10 and \<open>s\<close> to 2, \<open>FLOAT\<close> gives \<open>REAL\<close>, \<open>DOUBLE\<close> gives \<open>DOUBLE PRECISION\<close>, \<open>JSON\<close>
  gives \<open>JSONB\<close>, and every other data type falls back to \<open>TEXT\<close>.
\<close>

theorem generateColumnDefinition_type_mapping:
  fixes c :: "'f Column"
  shows "let gen = generateColumnDefinition fmt_v c;
      pre = c_Name c @ '' '';
      suf = (if Nullable c then '''' else '' NOT NULL'') @ columnDefault fmt_v c
  in (DataType c = ''INT'' \<longrightarrow>
        gen = pre @ (if AutoIncrement c then ''SERIAL'' else ''INTEGER'') @ suf)
   \<and> (DataType c = ''BIGINT'' \<longrightarrow>
        gen = pre @ (if AutoIncrement c then ''BIGSERIAL'' else ''BIGINT'') @ suf)
   \<and> (DataType c = ''VARCHAR'' \<longrightarrow>
        (\<forall>n. Length c = Some n \<and> n > 0 \<longrightarrow> gen = pre @ ''VARCHAR('' @ show_int n @ '')'' @ suf)
      \<and> (Length c = None \<or> (\<exists>n. Length c = Some n \<and> n \<le> 0)
           \<longrightarrow> gen = pre @ ''VARCHAR(255)'' @ suf))
   \<and> (DataType c = ''TEXT'' \<longrightarrow> gen = pre @ ''TEXT'' @ suf)
   \<and> (DataType c = ''BOOLEAN'' \<longrightarrow> gen = pre @ ''BOOLEAN'' @ suf)
   \<and> (DataType c = ''TIMESTAMP'' \<longrightarrow> gen = pre @ ''TIMESTAMP WITH TIME ZONE'' @ suf)
   \<and> (DataType c = ''DATE'' \<longrightarrow> gen = pre @ ''DATE'' @ suf)
   \<and> (DataType c = ''TIME'' \<longrightarrow> gen = pre @ ''TIME'' @ suf)
   \<and> (DataType c = ''DECIMAL'' \<longrightarrow>
        gen = pre @ ''DECIMAL('' @ show_int (case Precision c of None \<Rightarrow> 10 | Some p \<Rightarrow> p)
                  @ '','' @ show_int (case Scale c of None \<Rightarrow> 2 | Some s \<Rightarrow> s) @ '')'' @ suf)
   \<and> (DataType c = ''FLOAT'' \<longrightarrow> gen = pre @ ''REAL'' @ suf)
   \<and> (DataType c = ''DOUBLE'' \<longrightarrow> gen = pre @ ''DOUBLE PRECISION'' @ suf)
   \<and> (DataType c = ''JSON'' \<longrightarrow> gen = pre @ ''JSONB'' @ suf)
   \<and> (DataType c = ''UUID'' \<longrightarrow> gen = pre @ ''UUID'' @ suf)
   \<and> (DataType c \<notin> dataTypeNames \<longrightarrow> gen = pre @ ''TEXT'' @ suf)"
proof -
  have d255: "show_int 255 = ''255''" by code_simp
  show ?thesis
    unfolding Let_def generateColumnDefinition_def columnType_def dataTypeNames_def
    by (auto simp: d255)
qed

theorem generateColumnDefinition_type_mapping_witness:
  "generateColumnDefinition show_int ((jsonColumn ''c2'' ''email'' ''VARCHAR'')\<lparr>Length := Some 0\<rparr>)
     = ''email VARCHAR(255) NOT NULL''
   \<and> generateColumnDefinition show_int ((jsonColumn ''c2'' ''email'' ''VARCHAR'')\<lparr>Length := Some 64\<rparr>)
     = ''email VARCHAR(64) NOT NULL''
   \<and> generateColumnDefinition show_int ((jsonColumn ''c1'' ''id'' ''INT'')\<lparr>AutoIncrement := True\<rparr>)
     = ''id SERIAL NOT NULL''
   \<and> generateColumnDefinition show_int ((jsonColumn ''c3'' ''price'' ''DECIMAL'')\<lparr>Nullable := True\<rparr>)
     = ''price DECIMAL(10,2)''
   \<and> ''MONEY'' \<notin> dataTypeNames
   \<and> generateColumnDefinition show_int (jsonColumn ''c3'' ''price'' ''MONEY'') = ''price TEXT NOT NULL''"
proof -
  have n: "show_int 64 = ''64''" "show_int 10 = ''10''" "show_int 2 = ''2''"
    by code_simp+
  show ?thesis
    using generateColumnDefinition_type_mapping
            [of show_int "(jsonColumn ''c2'' ''email'' ''VARCHAR'')\<lparr>Length := Some 0\<rparr>"]
          generateColumnDefinition_type_mapping
            [of show_int "(jsonColumn ''c2'' ''email'' ''VARCHAR'')\<lparr>Length := Some 64\<rparr>"]
          generateColumnDefinition_type_mapping
            [of show_int "(jsonColumn ''c1'' ''id'' ''INT'')\<lparr>AutoIncrement := True\<rparr>"]
          generateColumnDefinition_type_mapping
            [of show_int "(jsonColumn ''c3'' ''price'' ''DECIMAL'')\<lparr>Nullable := True\<rparr>"]
          generateColumnDefinition_type_mapping
            [of show_int "jsonColumn ''c3'' ''price'' ''MONEY''"]
    unfolding Let_def
    by (simp add: jsonColumn_def columnDefault_def dataTypeNames_def n)
qed

text \<open>
  Claim C7, amended for strings.  An explicitly given default value that is a non-empty
  string is rendered in single quotes as given, and a boolean is rendered in lower case.
  An explicitly given empty string renders no \<open>DEFAULT\<close> clause.  When no default value
  is given, \<open>TIMESTAMP\<close> gets \<open>DEFAULT CURRENT_TIMESTAMP\<close>, \<open>UUID\<close> gets
  \<open>DEFAULT gen_random_uuid()\<close>, and every other type gets no \<open>DEFAULT\<close> clause.  The
  statement says nothing about how a number is rendered.
\<close>

theorem generateColumnDefinition_default_clause:
  fixes c :: "'f Column"
  shows "let gen = generateColumnDefinition fmt_v c;
      base = c_Name c @ '' '' @ columnType c @ (if Nullable c then '''' else '' NOT NULL'')
  in (\<forall>v. DefaultValue c = Some (JString v) \<and> v \<noteq> ''''
          \<longrightarrow> gen = base @ '' DEFAULT '' @ quote @ v @ quote)
   \<and> (DefaultValue c = Some (JString '''') \<longrightarrow> gen = base)
   \<and> (DefaultValue c = Some (JBool True) \<longrightarrow> gen = base @ '' DEFAULT true'')
   \<and> (DefaultValue c = Some (JBool False) \<longrightarrow> gen = base @ '' DEFAULT false'')
   \<and> (DefaultValue c = None \<and> DataType c = ''TIMESTAMP''
        \<longrightarrow> gen = base @ '' DEFAULT CURRENT_TIMESTAMP'')
   \<and> (DefaultValue c = None \<and> DataType c = ''UUID''
        \<longrightarrow> gen = base @ '' DEFAULT gen_random_uuid()'')
   \<and> (DefaultValue c = None \<and> DataType c \<noteq> ''TIMESTAMP'' \<and> DataType c \<noteq> ''UUID''
        \<longrightarrow> gen = base)"
  unfolding Let_def generateColumnDefinition_def columnDefault_def
  by (auto simp: show_bool_def)

theorem generateColumnDefinition_default_clause_witness:
  "generateColumnDefinition show_int emptyDefaultColumn = ''note TEXT''
   \<and> generateColumnDefinition show_int
        ((jsonColumn ''c1'' ''state'' ''TEXT'')\<lparr>DefaultValue := Some (JString ''new'')\<rparr>)
     = ''state TEXT NOT NULL DEFAULT '' @ quote @ ''new'' @ quote
   \<and> generateColumnDefinition show_int
        ((jsonColumn ''c1'' ''active'' ''BOOLEAN'')\<lparr>DefaultValue := Some (JBool True)\<rparr>)
     = ''active BOOLEAN NOT NULL DEFAULT true''
   \<and> generateColumnDefinition show_int (jsonColumn ''c1'' ''created_at'' ''TIMESTAMP'')
     = ''created_at TIMESTAMP WITH TIME ZONE NOT NULL DEFAULT CURRENT_TIMESTAMP''
   \<and> generateColumnDefinition show_int (jsonColumn ''c1'' ''id'' ''UUID'')
     = ''id UUID NOT NULL DEFAULT gen_random_uuid()''
   \<and> generateColumnDefinition show_int (jsonColumn ''c1'' ''born'' ''DATE'') = ''born DATE NOT NULL''"
  using generateColumnDefinition_default_clause [of show_int emptyDefaultColumn]
        generateColumnDefinition_default_clause
          [of show_int "(jsonColumn ''c1'' ''state'' ''TEXT'')\<lparr>DefaultValue := Some (JString ''new'')\<rparr>"]
        generateColumnDefinition_default_clause
          [of show_int "(jsonColumn ''c1'' ''active'' ''BOOLEAN'')\<lparr>DefaultValue := Some (JBool True)\<rparr>"]
        generateColumnDefinition_default_clause [of show_int "jsonColumn ''c1'' ''created_at'' ''TIMESTAMP''"]
        generateColumnDefinition_default_clause [of show_int "jsonColumn ''c1'' ''id'' ''UUID''"]
        generateColumnDefinition_default_clause [of show_int "jsonColumn ''c1'' ''born'' ''DATE''"]
  unfolding Let_def
  by (simp add: emptyDefaultColumn_def jsonColumn_def columnType_def)

text \<open>
  Claim C7 as stated fails: the default value of \<open>emptyDefaultColumn\<close> is explicitly set,
  to the empty string, and the definition carries no \<open>DEFAULT\<close> clause, where the claim
  has the string rendered in quotes.
\<close>

theorem generateColumnDefinition_empty_string_default:
  "DefaultValue emptyDefaultColumn = Some (JString '''')
   \<and> generateColumnDefinition show_int emptyDefaultColumn = ''note TEXT''
   \<and> generateColumnDefinition show_int emptyDefaultColumn \<noteq> ''note TEXT DEFAULT '' @ quote @ quote"
  by code_simp

section \<open>Validation\<close>

lemma hasPrimaryKey_iff: "hasPrimaryKey cs \<longleftrightarrow> (\<exists>c\<in>set cs. PrimaryKey c)"
  by (induction cs) auto

lemma dataTypesLoop_mono: "set es \<subseteq> set (dataTypesLoop i j cs es)"
proof (induction cs arbitrary: j es)
  case Nil
  then show ?case by simp
next
  case (Cons c cs)
  let ?es = "if \<not> lookup_bool SupportedDataTypes (DataType c)
             then es @ [unsupportedDataType i j c] else es"
  have "set es \<subseteq> set ?es" by auto
  also have "\<dots> \<subseteq> set (dataTypesLoop i (Suc j) cs ?es)" by (rule Cons.IH)
  finally show ?case by simp
qed

lemma dataTypesLoop_supported:
  "\<forall>c\<in>set cs. lookup_bool SupportedDataTypes (DataType c) \<Longrightarrow> dataTypesLoop i j cs es = es"
  by (induction cs arbitrary: j es) auto

lemma dataTypesLoop_unsupported:
  "k < length cs \<Longrightarrow> \<not> lookup_bool SupportedDataTypes (DataType (cs ! k))
   \<Longrightarrow> unsupportedDataType i (j + k) (cs ! k) \<in> set (dataTypesLoop i j cs es)"
proof (induction cs arbitrary: j k es)
  case Nil
  then show ?case by simp
next
  case (Cons c cs)
  show ?case
  proof (cases k)
    case 0
    with Cons.prems show ?thesis
      using dataTypesLoop_mono [of "es @ [unsupportedDataType i j c]" i "Suc j" cs]
      by auto
  next
    case (Suc k')
    with Cons.prems have "k' < length cs" "\<not> lookup_bool SupportedDataTypes (DataType (cs ! k'))"
      by auto
    from Cons.IH [OF this, of "Suc j"] Suc show ?thesis by simp
  qed
qed

lemma validateTablesLoop_fst_mono: "set es \<subseteq> set (fst (validateTablesLoop i ts (es, ws)))"
proof (induction ts arbitrary: i es ws)
  case Nil
  then show ?case by simp
next
  case (Cons t ts)
  show ?case
    using dataTypesLoop_mono [of es i 0 "Columns t"] Cons.IH
    by (simp del: dataTypesLoop.simps) blast
qed

lemma validateTablesLoop_supported:
  "\<forall>t\<in>set ts. \<forall>c\<in>set (Columns t). lookup_bool SupportedDataTypes (DataType c)
   \<Longrightarrow> fst (validateTablesLoop i ts (es, ws)) = es"
  by (induction ts arbitrary: i es ws) (auto simp: dataTypesLoop_supported)

lemma validateTablesLoop_unsupported:
  "k < length ts \<Longrightarrow> j < length (Columns (ts ! k))
   \<Longrightarrow> \<not> lookup_bool SupportedDataTypes (DataType (Columns (ts ! k) ! j))
   \<Longrightarrow> unsupportedDataType (i + k) j (Columns (ts ! k) ! j)
        \<in> set (fst (validateTablesLoop i ts (es, ws)))"
proof (induction ts arbitrary: i k es ws)
  case Nil
  then show ?case by simp
next
  case (Cons t ts)
  show ?case
  proof (cases k)
    case 0
    with Cons.prems
    have "unsupportedDataType i (0 + j) (Columns t ! j) \<in> set (dataTypesLoop i 0 (Columns t) es)"
      by (intro dataTypesLoop_unsupported) auto
    with 0 show ?thesis
      using validateTablesLoop_fst_mono [of "dataTypesLoop i 0 (Columns t) es" "Suc i" ts]
      by auto
  next
    case (Suc k')
    with Cons.prems Cons.IH [of k' "Suc i"] show ?thesis by simp
  qed
qed

lemma validateTablesLoop_snd:
  "snd (validateTablesLoop i ts (es, ws)) =
     ws @ map noPrimaryKey (filter (\<lambda>t. \<not> hasPrimaryKey (Columns t)) ts)"
  by (induction ts arbitrary: i es ws) auto

lemma supported_iff: "lookup_bool SupportedDataTypes dt \<longleftrightarrow> dt \<in> dataTypeNames"
  by (simp add: lookup_bool_def SupportedDataTypes_def dataTypeNames_def)

text \<open>
  Claim C3.  \<open>ValidateSchema\<close> always returns a result, and the result is valid exactly
  when its error list is empty; warnings play no part in it.  When there is at least one
  table and every data type is supported, the result is valid and its warnings are, in
  table order, one warning for each table that has no primary-key column, naming that
  table (so a single such table gives exactly one warning).  A column whose data type is
  not supported makes the result invalid, with an error of code \<open>UNSUPPORTED_DATA_TYPE\<close>
  whose field gives the index of the table and the index of the column.  An empty list of
  tables gives the error of code \<open>MISSING_TABLES\<close>.
\<close>

theorem ValidateSchema_result:
  fixes request :: "'f SchemaValidationRequest"
  shows "\<exists>result. ValidateSchema request = Inr result
    \<and> (Valid result \<longleftrightarrow> Errors result = [])
    \<and> (svr_Tables request \<noteq> []
        \<and> (\<forall>t\<in>set (svr_Tables request). \<forall>c\<in>set (Columns t). DataType c \<in> dataTypeNames)
        \<longrightarrow> Valid result
          \<and> Warnings result =
              map (\<lambda>t. ''Table '' @ quote @ t_Name t @ quote @ '' has no primary key defined'')
                (filter (\<lambda>t. \<not> (\<exists>c\<in>set (Columns t). PrimaryKey c)) (svr_Tables request)))
    \<and> (\<forall>i j. i < length (svr_Tables request) \<and> j < length (Columns (svr_Tables request ! i))
          \<and> DataType (Columns (svr_Tables request ! i) ! j) \<notin> dataTypeNames
        \<longrightarrow> \<not> Valid result
          \<and> \<lparr>Field = ''tables['' @ show_int (int i) @ ''].columns['' @ show_int (int j)
                      @ ''].dataType'',
              Message = ''Unsupported data type: ''
                        @ DataType (Columns (svr_Tables request ! i) ! j),
              Code = ''UNSUPPORTED_DATA_TYPE''\<rparr> \<in> set (Errors result))
    \<and> (svr_Tables request = []
        \<longrightarrow> \<not> Valid result
          \<and> Errors result = [\<lparr>Field = ''tables'', Message = ''At least one table is required'',
                               Code = ''MISSING_TABLES''\<rparr>])"
proof -
  let ?ts = "svr_Tables request"
  let ?e0 = "if length ?ts = 0 then [missingTables] else []"
  obtain es ws where loop: "validateTablesLoop 0 ?ts (?e0, []) = (es, ws)"
    by (cases "validateTablesLoop 0 ?ts (?e0, [])")
  let ?res = "\<lparr>Valid = (length es = 0), Errors = es, Warnings = ws, GeneratedSQL = []\<rparr>"
  have res: "ValidateSchema request = Inr ?res"
    using loop by (simp add: ValidateSchema_def Let_def)
  have es: "es = fst (validateTablesLoop 0 ?ts (?e0, []))"
    and ws: "ws = snd (validateTablesLoop 0 ?ts (?e0, []))"
    using loop by simp_all
  have a: "Valid ?res \<longleftrightarrow> Errors ?res = []" by simp
  have b: "Valid ?res \<and> Warnings ?res =
             map (\<lambda>t. ''Table '' @ quote @ t_Name t @ quote @ '' has no primary key defined'')
               (filter (\<lambda>t. \<not> (\<exists>c\<in>set (Columns t). PrimaryKey c)) ?ts)"
    if ne: "?ts \<noteq> []"
      and sup: "\<forall>t\<in>set ?ts. \<forall>c\<in>set (Columns t). DataType c \<in> dataTypeNames"
  proof -
    from sup have "\<forall>t\<in>set ?ts. \<forall>c\<in>set (Columns t). lookup_bool SupportedDataTypes (DataType c)"
      unfolding supported_iff .
    then have "es = ?e0" unfolding es by (rule validateTablesLoop_supported)
    with ne have "es = []" by simp
    moreover have "ws = map noPrimaryKey (filter (\<lambda>t. \<not> hasPrimaryKey (Columns t)) ?ts)"
      unfolding ws validateTablesLoop_snd by simp
    ultimately show ?thesis
      by (simp add: hasPrimaryKey_iff noPrimaryKey_def [abs_def])
  qed
  have c: "\<not> Valid ?res
      \<and> \<lparr>Field = ''tables['' @ show_int (int i) @ ''].columns['' @ show_int (int j)
                  @ ''].dataType'',
          Message = ''Unsupported data type: '' @ DataType (Columns (?ts ! i) ! j),
          Code = ''UNSUPPORTED_DATA_TYPE''\<rparr> \<in> set (Errors ?res)"
    if "i < length ?ts" "j < length (Columns (?ts ! i))"
      "DataType (Columns (?ts ! i) ! j) \<notin> dataTypeNames" for i j
  proof -
    from that(3) have "\<not> lookup_bool SupportedDataTypes (DataType (Columns (?ts ! i) ! j))"
      unfolding supported_iff .
    from validateTablesLoop_unsupported [OF that(1,2) this, of 0 ?e0 "[]"]
    have "unsupportedDataType i j (Columns (?ts ! i) ! j) \<in> set es"
      unfolding es by simp
    then show ?thesis by (auto simp: unsupportedDataType_def)
  qed
  have d: "\<not> Valid ?res
      \<and> Errors ?res = [\<lparr>Field = ''tables'', Message = ''At least one table is required'',
                         Code = ''MISSING_TABLES''\<rparr>]"
    if "?ts = []"
    using that loop by (auto simp: missingTables_def)
  from res a b c d show ?thesis by blast
qed

theorem ValidateSchema_result_witness:
  "(\<exists>result. ValidateSchema requestNoPrimaryKey = Inr result \<and> Valid result
      \<and> Warnings result = [''Table '' @ quote @ ''logs'' @ quote @ '' has no primary key defined''])
   \<and> (\<exists>result. ValidateSchema requestMoney = Inr result \<and> \<not> Valid result
      \<and> \<lparr>Field = ''tables[0].columns[1].dataType'', Message = ''Unsupported data type: MONEY'',
          Code = ''UNSUPPORTED_DATA_TYPE''\<rparr> \<in> set (Errors result))
   \<and> (\<exists>result. ValidateSchema (requestMoney\<lparr>svr_Tables := []\<rparr>) = Inr result \<and> \<not> Valid result
      \<and> Errors result = [\<lparr>Field = ''tables'', Message = ''At least one table is required'',
                           Code = ''MISSING_TABLES''\<rparr>])"
proof -
  have n: "show_int (int 0) = ''0''" "show_int (int 1) = ''1''"
    by code_simp+
  have h1: "svr_Tables requestNoPrimaryKey \<noteq> []
      \<and> (\<forall>t\<in>set (svr_Tables requestNoPrimaryKey). \<forall>c\<in>set (Columns t). DataType c \<in> dataTypeNames)"
    by (simp add: requestNoPrimaryKey_def jsonTable_def jsonColumn_def dataTypeNames_def)
  have h2: "0 < length (svr_Tables requestMoney) \<and> 1 < length (Columns (svr_Tables requestMoney ! 0))
      \<and> DataType (Columns (svr_Tables requestMoney ! 0) ! 1) \<notin> dataTypeNames"
    by (simp add: requestMoney_def jsonTable_def jsonColumn_def dataTypeNames_def)
  have h3: "svr_Tables (requestMoney\<lparr>svr_Tables := []\<rparr>) = []" by simp
  from ValidateSchema_result [of requestNoPrimaryKey] h1
  have a: "\<exists>result. ValidateSchema requestNoPrimaryKey = Inr result \<and> Valid result
      \<and> Warnings result = [''Table '' @ quote @ ''logs'' @ quote @ '' has no primary key defined'']"
    by (auto simp: requestNoPrimaryKey_def jsonTable_def jsonColumn_def)
  from ValidateSchema_result [of requestMoney] obtain r where
    r: "ValidateSchema requestMoney = Inr r" and
    r2: "\<forall>i j. i < length (svr_Tables requestMoney) \<and> j < length (Columns (svr_Tables requestMoney ! i))
          \<and> DataType (Columns (svr_Tables requestMoney ! i) ! j) \<notin> dataTypeNames
        \<longrightarrow> \<not> Valid r
          \<and> \<lparr>Field = ''tables['' @ show_int (int i) @ ''].columns['' @ show_int (int j)
                      @ ''].dataType'',
              Message = ''Unsupported data type: ''
                        @ DataType (Columns (svr_Tables requestMoney ! i) ! j),
              Code = ''UNSUPPORTED_DATA_TYPE''\<rparr> \<in> set (Errors r)"
    by blast
  from r2 [rule_format, of 0 1] h2 have
   "\<not> Valid r \<and> \<lparr>Field = ''tables['' @ show_int (int 0) @ ''].columns['' @ show_int (int 1)
                      @ ''].dataType'',
              Message = ''Unsupported data type: ''
                        @ DataType (Columns (svr_Tables requestMoney ! 0) ! 1),
              Code = ''UNSUPPORTED_DATA_TYPE''\<rparr> \<in> set (Errors r)"
    by blast
  then have "\<not> Valid r \<and> \<lparr>Field = ''tables[0].columns[1].dataType'', Message = ''Unsupported data type: MONEY'',
          Code = ''UNSUPPORTED_DATA_TYPE''\<rparr> \<in> set (Errors r)"
    unfolding n by (simp add: requestMoney_def jsonTable_def jsonColumn_def)
  with r have b: "\<exists>result. ValidateSchema requestMoney = Inr result \<and> \<not> Valid result
      \<and> \<lparr>Field = ''tables[0].columns[1].dataType'', Message = ''Unsupported data type: MONEY'',
          Code = ''UNSUPPORTED_DATA_TYPE''\<rparr> \<in> set (Errors result)"
    by blast
  from ValidateSchema_result [of "requestMoney\<lparr>svr_Tables := []\<rparr>"] h3
  have c: "\<exists>result. ValidateSchema (requestMoney\<lparr>svr_Tables := []\<rparr>) = Inr result \<and> \<not> Valid result
      \<and> Errors result = [\<lparr>Field = ''tables'', Message = ''At least one table is required'',
                           Code = ''MISSING_TABLES''\<rparr>]"
    by auto
  from a b c show ?thesis by blast
qed

section \<open>Statement generation\<close>

lemma tablesLoop_map: "tablesLoop fmt_v ts acc = acc @ map (createTableStatement fmt_v) ts"
  by (induction ts arbitrary: acc) auto

lemma GenerateCreateTables_map:
  "GenerateCreateTables fmt_v sd = Inr (map (createTableStatement fmt_v) (Tables sd))"
  by (simp add: GenerateCreateTables_def tablesLoop_map)

text \<open>
  Claim C9.  \<open>GenerateCreateTables\<close> returns one statement per table, the i-th statement
  being the one built from the i-th table.  Hence for every permutation \<open>p\<close> of the
  indices of the tables, the statements for the permuted tables are the same permutation
  of the statements for the original tables.
\<close>

theorem GenerateCreateTables_permutation:
  fixes sd :: "'f SchemaData"
  assumes "mset p = mset [0..<length (Tables sd)]"
  shows "\<exists>stmts. GenerateCreateTables fmt_v sd = Inr stmts
     \<and> length stmts = length (Tables sd)
     \<and> (\<forall>i<length (Tables sd). stmts ! i = createTableStatement fmt_v (Tables sd ! i))
     \<and> GenerateCreateTables fmt_v (sd\<lparr>Tables := map (\<lambda>i. Tables sd ! i) p\<rparr>)
         = Inr (map (\<lambda>i. stmts ! i) p)"
proof -
  from assms have "set p = set [0..<length (Tables sd)]" by (rule mset_eq_setD)
  then have "\<forall>i\<in>set p. i < length (Tables sd)" by simp
  then have "map (createTableStatement fmt_v) (map (\<lambda>i. Tables sd ! i) p)
             = map (\<lambda>i. map (createTableStatement fmt_v) (Tables sd) ! i) p"
    by simp
  then show ?thesis by (simp add: GenerateCreateTables_map)
qed

lemma foreignKeysLoop_append:
  "foreignKeysLoop tm cm fks acc = acc @ foreignKeysLoop tm cm fks []"
proof (induction fks arbitrary: acc)
  case Nil
  then show ?case by simp
next
  case (Cons fk fks)
  show ?case
    using Cons.IH [of "acc @ [x]" for x] Cons.IH [of "[x]" for x] Cons.IH [of acc]
    by (simp split: option.splits)
qed

lemma foreignKeysLoop_concat:
  "foreignKeysLoop tm cm fks [] = concat (map (\<lambda>fk. foreignKeysLoop tm cm [fk] []) fks)"
proof (induction fks)
  case Nil
  then show ?case by simp
next
  case (Cons fk fks)
  have "foreignKeysLoop tm cm (fk # fks) [] = foreignKeysLoop tm cm [fk] [] @ foreignKeysLoop tm cm fks []"
    using foreignKeysLoop_append [of tm cm fks "[x]" for x]
    by (simp split: option.splits)
  with Cons.IH show ?case by simp
qed

lemma emittedFor_fails: "lookupFails sd fk \<Longrightarrow> emittedFor sd fk = []"
  by (auto simp: lookupFails_def emittedFor_def split: option.splits)

lemma emittedFor_resolved:
  "tableMap sd (SourceTableId fk) = Some st \<Longrightarrow> tableMap sd (TargetTableId fk) = Some tt
   \<Longrightarrow> columnMap sd (SourceColumnId fk) = Some sc \<Longrightarrow> columnMap sd (TargetColumnId fk) = Some tc
   \<Longrightarrow> emittedFor sd fk = [foreignKeyStatement fk st sc tt tc]"
  by (simp add: emittedFor_def)

lemma GenerateForeignKeys_concat:
  "GenerateForeignKeys sd = Inr (concat (map (emittedFor sd) (ForeignKeys sd)))"
  unfolding GenerateForeignKeys_def emittedFor_def [abs_def]
  using foreignKeysLoop_concat [of "tableMap sd" "columnMap sd" "ForeignKeys sd"] by simp

lemma concat_map_filter_Nil:
  "\<forall>x. \<not> P x \<longrightarrow> f x = [] \<Longrightarrow> concat (map f (filter P xs)) = concat (map f xs)"
  by (induction xs) auto

text \<open>
  Claim C5.  \<open>GenerateForeignKeys\<close> always returns successfully, and its result is the
  concatenation, in input order, of what each foreign key contributes.  A foreign key for
  which one of the four lookups fails contributes no statement, every other foreign key
  contributes exactly one; so removing the unresolvable foreign keys from the input does
  not change the result.
\<close>

theorem GenerateForeignKeys_skips_unresolved:
  fixes sd :: "'f SchemaData"
  shows "GenerateForeignKeys sd = Inr (concat (map (emittedFor sd) (ForeignKeys sd)))
    \<and> (\<forall>fk. lookupFails sd fk \<longrightarrow> emittedFor sd fk = [])
    \<and> (\<forall>fk. \<not> lookupFails sd fk \<longrightarrow> length (emittedFor sd fk) = 1)
    \<and> GenerateForeignKeys (sd\<lparr>ForeignKeys := filter (\<lambda>fk. \<not> lookupFails sd fk) (ForeignKeys sd)\<rparr>)
        = GenerateForeignKeys sd"
proof -
  have a: "\<forall>fk. \<not> lookupFails sd fk \<longrightarrow> length (emittedFor sd fk) = 1"
    by (auto simp: lookupFails_def emittedFor_resolved)
  have maps: "tableMap (sd\<lparr>ForeignKeys := fks\<rparr>) = tableMap sd"
    "columnMap (sd\<lparr>ForeignKeys := fks\<rparr>) = columnMap sd" for fks
    by (simp_all add: tableMap_def columnMap_def)
  have same: "emittedFor (sd\<lparr>ForeignKeys := fks\<rparr>) = emittedFor sd" for fks
    unfolding emittedFor_def [abs_def] maps ..
  have "concat (map (emittedFor sd) (filter (\<lambda>fk. \<not> lookupFails sd fk) (ForeignKeys sd)))
        = concat (map (emittedFor sd) (ForeignKeys sd))"
    by (rule concat_map_filter_Nil) (simp add: emittedFor_fails)
  then have b: "GenerateForeignKeys (sd\<lparr>ForeignKeys := filter (\<lambda>fk. \<not> lookupFails sd fk) (ForeignKeys sd)\<rparr>)
        = GenerateForeignKeys sd"
    by (simp add: GenerateForeignKeys_concat same)
  from a b show ?thesis
    by (simp add: GenerateForeignKeys_concat emittedFor_fails)
qed

lemma valid_action_iff:
  "a \<noteq> '''' \<and> lookup_bool ValidForeignKeyActions a \<longleftrightarrow> a \<in> foreignKeyActions"
  by (auto simp: lookup_bool_def ValidForeignKeyActions_def foreignKeyActions_def)

text \<open>
  Claim C6.  For every foreign key of the schema whose four lookups resolve, the emitted
  statement names the constraint by the foreign key's name when that is not empty and by
  \<open>fk_<sourceTable>_<sourceColumn>\<close> otherwise, and its \<open>ON DELETE\<close> and \<open>ON UPDATE\<close>
  actions are the given values when they are among \<open>CASCADE\<close>, \<open>RESTRICT\<close>, \<open>SET NULL\<close>
  and \<open>NO ACTION\<close>, and \<open>RESTRICT\<close> otherwise (the empty string included).
\<close>

theorem GenerateForeignKeys_name_and_actions:
  fixes sd :: "'f SchemaData"
  shows "\<exists>stmts. GenerateForeignKeys sd = Inr stmts
    \<and> (\<forall>fk\<in>set (ForeignKeys sd). \<forall>st sc tt tc.
          tableMap sd (SourceTableId fk) = Some st \<and> tableMap sd (TargetTableId fk) = Some tt
          \<and> columnMap sd (SourceColumnId fk) = Some sc \<and> columnMap sd (TargetColumnId fk) = Some tc
        \<longrightarrow> (let emitted =
                ''ALTER TABLE '' @ st @ '' ADD CONSTRAINT ''
                @ (if fk_Name fk \<noteq> '''' then fk_Name fk else ''fk_'' @ st @ ''_'' @ sc)
                @ '' FOREIGN KEY ('' @ sc @ '') REFERENCES '' @ tt @ '' ('' @ tc @ '')''
                @ '' ON DELETE ''
                @ (if OnDelete fk \<in> foreignKeyActions then OnDelete fk else ''RESTRICT'')
                @ '' ON UPDATE ''
                @ (if OnUpdate fk \<in> foreignKeyActions then OnUpdate fk else ''RESTRICT'')
                @ '';''
              in emittedFor sd fk = [emitted] \<and> emitted \<in> set stmts))"
proof -
  let ?stmts = "concat (map (emittedFor sd) (ForeignKeys sd))"
  have one: "emittedFor sd fk =
              [''ALTER TABLE '' @ st @ '' ADD CONSTRAINT ''
               @ (if fk_Name fk \<noteq> '''' then fk_Name fk else ''fk_'' @ st @ ''_'' @ sc)
               @ '' FOREIGN KEY ('' @ sc @ '') REFERENCES '' @ tt @ '' ('' @ tc @ '')''
               @ '' ON DELETE ''
               @ (if OnDelete fk \<in> foreignKeyActions then OnDelete fk else ''RESTRICT'')
               @ '' ON UPDATE ''
               @ (if OnUpdate fk \<in> foreignKeyActions then OnUpdate fk else ''RESTRICT'')
               @ '';'']"
    if "tableMap sd (SourceTableId fk) = Some st" "tableMap sd (TargetTableId fk) = Some tt"
      "columnMap sd (SourceColumnId fk) = Some sc" "columnMap sd (TargetColumnId fk) = Some tc"
    for fk st sc tt tc
    unfolding emittedFor_resolved [OF that] foreignKeyStatement_def Let_def valid_action_iff
    by simp
  have mem: "x \<in> set ?stmts" if "fk \<in> set (ForeignKeys sd)" "emittedFor sd fk = [x]" for fk x
    using that by force
  have "GenerateForeignKeys sd = Inr ?stmts" by (rule GenerateForeignKeys_concat)
  moreover have "\<forall>fk\<in>set (ForeignKeys sd). \<forall>st sc tt tc.
          tableMap sd (SourceTableId fk) = Some st \<and> tableMap sd (TargetTableId fk) = Some tt
          \<and> columnMap sd (SourceColumnId fk) = Some sc \<and> columnMap sd (TargetColumnId fk) = Some tc
        \<longrightarrow> (let emitted =
                ''ALTER TABLE '' @ st @ '' ADD CONSTRAINT ''
                @ (if fk_Name fk \<noteq> '''' then fk_Name fk else ''fk_'' @ st @ ''_'' @ sc)
                @ '' FOREIGN KEY ('' @ sc @ '') REFERENCES '' @ tt @ '' ('' @ tc @ '')''
                @ '' ON DELETE ''
                @ (if OnDelete fk \<in> foreignKeyActions then OnDelete fk else ''RESTRICT'')
                @ '' ON UPDATE ''
                @ (if OnUpdate fk \<in> foreignKeyActions then OnUpdate fk else ''RESTRICT'')
                @ '';''
              in emittedFor sd fk = [emitted] \<and> emitted \<in> set ?stmts)"
    unfolding Let_def using one mem by blast
  ultimately show ?thesis by blast
qed

lemma columnMapLoop_lookup:
  "columnMapLoop cs cm k =
     (if k \<in> c_ID ` set cs then Some (c_Name (last (filter (\<lambda>c. c_ID c = k) cs))) else cm k)"
proof (induction cs arbitrary: cm)
  case Nil
  then show ?case by simp
next
  case (Cons c cs)
  show ?case
  proof (cases "k \<in> c_ID ` set cs")
    case True
    then have "filter (\<lambda>c. c_ID c = k) cs \<noteq> []"
      by (auto simp: filter_empty_conv)
    with True show ?thesis by (simp add: Cons.IH)
  next
    case False
    then have "filter (\<lambda>c. c_ID c = k) cs = []"
      by (auto simp: filter_empty_conv)
    with False show ?thesis by (auto simp: Cons.IH)
  qed
qed

lemma mapsLoop_columns:
  "snd (mapsLoop ts (tm, cm)) k =
     (if k \<in> c_ID ` set (concat (map Columns ts))
      then Some (c_Name (last (filter (\<lambda>c. c_ID c = k) (concat (map Columns ts)))))
      else cm k)"
proof (induction ts arbitrary: tm cm)
  case Nil
  then show ?case by simp
next
  case (Cons t ts)
  let ?rest = "concat (map Columns ts)"
  show ?case
  proof (cases "k \<in> c_ID ` set ?rest")
    case True
    then have "filter (\<lambda>c. c_ID c = k) ?rest \<noteq> []"
      by (auto simp: filter_empty_conv)
    with True show ?thesis by (auto simp: Cons.IH image_Un)
  next
    case False
    then have "filter (\<lambda>c. c_ID c = k) ?rest = []"
      by (auto simp: filter_empty_conv)
    with False show ?thesis by (auto simp: Cons.IH columnMapLoop_lookup image_Un)
  qed
qed

lemma mapsLoop_tables:
  "fst (mapsLoop ts (tm, cm)) k =
     (if k \<in> t_ID ` set ts then Some (t_Name (last (filter (\<lambda>t. t_ID t = k) ts))) else tm k)"
proof (induction ts arbitrary: tm cm)
  case Nil
  then show ?case by simp
next
  case (Cons t ts)
  show ?case
  proof (cases "k \<in> t_ID ` set ts")
    case True
    then have "filter (\<lambda>t. t_ID t = k) ts \<noteq> []"
      by (auto simp: filter_empty_conv)
    with True show ?thesis by (simp add: Cons.IH)
  next
    case False
    then have "filter (\<lambda>t. t_ID t = k) ts = []"
      by (auto simp: filter_empty_conv)
    with False show ?thesis by (auto simp: Cons.IH)
  qed
qed

lemma columnMap_lookup:
  "columnMap sd k =
     (if k \<in> c_ID ` set (allColumns sd)
      then Some (c_Name (last (filter (\<lambda>c. c_ID c = k) (allColumns sd)))) else None)"
  unfolding columnMap_def allColumns_def mapsLoop_columns by simp

lemma tableMap_lookup:
  "tableMap sd k =
     (if k \<in> t_ID ` set (Tables sd)
      then Some (t_Name (last (filter (\<lambda>t. t_ID t = k) (Tables sd)))) else None)"
  unfolding tableMap_def mapsLoop_tables by simp

text \<open>
  Claim C10.  The column lookup map of \<open>GenerateForeignKeys\<close> is built over the columns
  of all tables: a column identifier resolves exactly when some column of some table has
  it, and it resolves to the name of the last such column in input order (the columns
  taken table after table).  So a foreign key of the schema whose table identifiers match
  tables and whose column identifiers match columns of any table is emitted, not skipped,
  with the names these lookups give.
\<close>

theorem GenerateForeignKeys_column_lookup_unscoped:
  fixes sd :: "'f SchemaData"
  shows "(\<forall>k. columnMap sd k =
            (if k \<in> c_ID ` set (allColumns sd)
             then Some (c_Name (last (filter (\<lambda>c. c_ID c = k) (allColumns sd)))) else None))
    \<and> (\<forall>fk\<in>set (ForeignKeys sd).
          SourceTableId fk \<in> t_ID ` set (Tables sd) \<and> TargetTableId fk \<in> t_ID ` set (Tables sd)
          \<and> SourceColumnId fk \<in> c_ID ` set (allColumns sd)
          \<and> TargetColumnId fk \<in> c_ID ` set (allColumns sd)
        \<longrightarrow> \<not> lookupFails sd fk
          \<and> (\<exists>stmts. GenerateForeignKeys sd = Inr stmts
                \<and> foreignKeyStatement fk
                     (t_Name (last (filter (\<lambda>t. t_ID t = SourceTableId fk) (Tables sd))))
                     (c_Name (last (filter (\<lambda>c. c_ID c = SourceColumnId fk) (allColumns sd))))
                     (t_Name (last (filter (\<lambda>t. t_ID t = TargetTableId fk) (Tables sd))))
                     (c_Name (last (filter (\<lambda>c. c_ID c = TargetColumnId fk) (allColumns sd))))
                   \<in> set stmts))"
proof -
  have b: "\<not> lookupFails sd fk
          \<and> (\<exists>stmts. GenerateForeignKeys sd = Inr stmts
                \<and> foreignKeyStatement fk
                     (t_Name (last (filter (\<lambda>t. t_ID t = SourceTableId fk) (Tables sd))))
                     (c_Name (last (filter (\<lambda>c. c_ID c = SourceColumnId fk) (allColumns sd))))
                     (t_Name (last (filter (\<lambda>t. t_ID t = TargetTableId fk) (Tables sd))))
                     (c_Name (last (filter (\<lambda>c. c_ID c = TargetColumnId fk) (allColumns sd))))
                   \<in> set stmts)"
    if fk: "fk \<in> set (ForeignKeys sd)"
      and ids: "SourceTableId fk \<in> t_ID ` set (Tables sd)"
        "TargetTableId fk \<in> t_ID ` set (Tables sd)"
        "SourceColumnId fk \<in> c_ID ` set (allColumns sd)"
        "TargetColumnId fk \<in> c_ID ` set (allColumns sd)"
    for fk
  proof -
    let ?st = "t_Name (last (filter (\<lambda>t. t_ID t = SourceTableId fk) (Tables sd)))"
    let ?sc = "c_Name (last (filter (\<lambda>c. c_ID c = SourceColumnId fk) (allColumns sd)))"
    let ?tt = "t_Name (last (filter (\<lambda>t. t_ID t = TargetTableId fk) (Tables sd)))"
    let ?tc = "c_Name (last (filter (\<lambda>c. c_ID c = TargetColumnId fk) (allColumns sd)))"
    have l: "tableMap sd (SourceTableId fk) = Some ?st" "tableMap sd (TargetTableId fk) = Some ?tt"
      "columnMap sd (SourceColumnId fk) = Some ?sc" "columnMap sd (TargetColumnId fk) = Some ?tc"
      using ids by (simp_all add: tableMap_lookup columnMap_lookup)
    then have nf: "\<not> lookupFails sd fk" by (simp add: lookupFails_def)
    have "emittedFor sd fk = [foreignKeyStatement fk ?st ?sc ?tt ?tc]"
      using l by (rule emittedFor_resolved)
    with fk have "foreignKeyStatement fk ?st ?sc ?tt ?tc
        \<in> set (concat (map (emittedFor sd) (ForeignKeys sd)))"
      by force
    with nf show ?thesis by (simp add: GenerateForeignKeys_concat)
  qed
  from b show ?thesis by (simp add: columnMap_lookup)
qed

section \<open>Scenarios\<close>

text \<open>
  Claim C8.  For the schema of the round-trip scenario, whatever identifiers it uses as
  long as the two tables have different identifiers and the identifier of \<open>users.id\<close> is
  neither that of \<open>users.email\<close> nor that of \<open>posts.user_id\<close>, \<open>GenerateCreateTables\<close>
  returns exactly two \<open>CREATE TABLE\<close> statements and \<open>GenerateForeignKeys\<close> returns exactly
  one \<open>ALTER TABLE\<close> statement, which references \<open>users (id)\<close> with
  \<open>ON DELETE CASCADE ON UPDATE RESTRICT\<close>.
\<close>

theorem round_trip_scenario:
  assumes "usersId \<noteq> postsId" and "idId \<noteq> emailId" and "idId \<noteq> userIdId"
  shows "GenerateCreateTables fmt_v (roundTripSchema usersId postsId idId emailId postIdId userIdId fkName)
      = Inr [''CREATE TABLE users ('' @ newline
             @ ''    id SERIAL NOT NULL,'' @ newline
             @ ''    email VARCHAR(255) NOT NULL,'' @ newline
             @ ''    PRIMARY KEY (id),'' @ newline
             @ ''    UNIQUE (email)'' @ newline
             @ '');'',
             ''CREATE TABLE posts ('' @ newline
             @ ''    id SERIAL NOT NULL,'' @ newline
             @ ''    user_id INTEGER NOT NULL,'' @ newline
             @ ''    PRIMARY KEY (id)'' @ newline
             @ '');'']
    \<and> GenerateForeignKeys (roundTripSchema usersId postsId idId emailId postIdId userIdId fkName)
      = Inr [''ALTER TABLE posts ADD CONSTRAINT ''
             @ (if fkName = '''' then ''fk_posts_user_id'' else fkName)
             @ '' FOREIGN KEY (user_id) REFERENCES users (id) ON DELETE CASCADE ON UPDATE RESTRICT;'']"
proof -
  have d255: "show_int 255 = ''255''" by code_simp
  have tables: "GenerateCreateTables fmt_v (roundTripSchema usersId postsId idId emailId postIdId userIdId fkName)
      = Inr [''CREATE TABLE users ('' @ newline
             @ ''    id SERIAL NOT NULL,'' @ newline
             @ ''    email VARCHAR(255) NOT NULL,'' @ newline
             @ ''    PRIMARY KEY (id),'' @ newline
             @ ''    UNIQUE (email)'' @ newline
             @ '');'',
             ''CREATE TABLE posts ('' @ newline
             @ ''    id SERIAL NOT NULL,'' @ newline
             @ ''    user_id INTEGER NOT NULL,'' @ newline
             @ ''    PRIMARY KEY (id)'' @ newline
             @ '');'']"
    by (simp add: GenerateCreateTables_def roundTripSchema_def jsonTable_def jsonColumn_def
        createTableStatement_def generateColumnDefinition_def columnType_def columnDefault_def
        d255 Let_def)
  have tm: "tableMap (roundTripSchema usersId postsId idId emailId postIdId userIdId fkName) postsId = Some ''posts''"
    "tableMap (roundTripSchema usersId postsId idId emailId postIdId userIdId fkName) usersId = Some ''users''"
    using assms by (simp_all add: tableMap_def roundTripSchema_def jsonTable_def)
  have cm: "columnMap (roundTripSchema usersId postsId idId emailId postIdId userIdId fkName) userIdId = Some ''user_id''"
    "columnMap (roundTripSchema usersId postsId idId emailId postIdId userIdId fkName) idId = Some ''id''"
    using assms by (simp_all add: columnMap_def roundTripSchema_def jsonTable_def jsonColumn_def)
  have fks: "ForeignKeys (roundTripSchema usersId postsId idId emailId postIdId userIdId fkName) =
      [\<lparr>fk_ID = ''fk1'', fk_Name = fkName, SourceTableId = postsId, SourceColumnId = userIdId,
          TargetTableId = usersId, TargetColumnId = idId,
          OnDelete = ''CASCADE'', OnUpdate = ''RESTRICT''\<rparr>]"
    by (simp add: roundTripSchema_def)
  have "GenerateForeignKeys (roundTripSchema usersId postsId idId emailId postIdId userIdId fkName)
      = Inr [''ALTER TABLE posts ADD CONSTRAINT ''
             @ (if fkName = '''' then ''fk_posts_user_id'' else fkName)
             @ '' FOREIGN KEY (user_id) REFERENCES users (id) ON DELETE CASCADE ON UPDATE RESTRICT;'']"
    unfolding GenerateForeignKeys_def fks
    by (simp add: tm cm foreignKeyStatement_def lookup_bool_def ValidForeignKeyActions_def)
  with tables show ?thesis by simp
qed

theorem round_trip_scenario_witness:
  "''t1'' \<noteq> ''t2'' \<and> ''c1'' \<noteq> ''c2'' \<and> ''c1'' \<noteq> ''c4''
   \<and> GenerateCreateTables show_int blogSchema
      = Inr [''CREATE TABLE users ('' @ newline
             @ ''    id SERIAL NOT NULL,'' @ newline
             @ ''    email VARCHAR(255) NOT NULL,'' @ newline
             @ ''    PRIMARY KEY (id),'' @ newline
             @ ''    UNIQUE (email)'' @ newline
             @ '');'',
             ''CREATE TABLE posts ('' @ newline
             @ ''    id SERIAL NOT NULL,'' @ newline
             @ ''    user_id INTEGER NOT NULL,'' @ newline
             @ ''    PRIMARY KEY (id)'' @ newline
             @ '');'']
   \<and> GenerateForeignKeys blogSchema
      = Inr [''ALTER TABLE posts ADD CONSTRAINT fk_posts_user_id FOREIGN KEY (user_id) REFERENCES users (id) ON DELETE CASCADE ON UPDATE RESTRICT;'']"
proof -
  have h: "''t1'' \<noteq> ''t2''" "''c1'' \<noteq> ''c2''" "''c1'' \<noteq> ''c4''" by simp_all
  from round_trip_scenario [OF h, of show_int "''c3''" "''''"]
  show ?thesis unfolding blogSchema_def by simp
qed

theorem GenerateCreateTables_permutation_witness:
  "mset [1, 0] = mset [0..<length (Tables blogSchema)]
   \<and> GenerateCreateTables show_int
        (blogSchema\<lparr>Tables := [Tables blogSchema ! 1, Tables blogSchema ! 0]\<rparr>)
      = Inr [''CREATE TABLE posts ('' @ newline
             @ ''    id SERIAL NOT NULL,'' @ newline
             @ ''    user_id INTEGER NOT NULL,'' @ newline
             @ ''    PRIMARY KEY (id)'' @ newline
             @ '');'',
             ''CREATE TABLE users ('' @ newline
             @ ''    id SERIAL NOT NULL,'' @ newline
             @ ''    email VARCHAR(255) NOT NULL,'' @ newline
             @ ''    PRIMARY KEY (id),'' @ newline
             @ ''    UNIQUE (email)'' @ newline
             @ '');'']"
proof -
  have len: "length (Tables blogSchema) = 2"
    by (simp add: blogSchema_def roundTripSchema_def)
  have h: "mset [1, 0] = mset [0..<length (Tables blogSchema)]"
    unfolding len by (simp add: upt_rec)
  have g: "GenerateCreateTables show_int blogSchema
      = Inr [''CREATE TABLE users ('' @ newline
             @ ''    id SERIAL NOT NULL,'' @ newline
             @ ''    email VARCHAR(255) NOT NULL,'' @ newline
             @ ''    PRIMARY KEY (id),'' @ newline
             @ ''    UNIQUE (email)'' @ newline
             @ '');'',
             ''CREATE TABLE posts ('' @ newline
             @ ''    id SERIAL NOT NULL,'' @ newline
             @ ''    user_id INTEGER NOT NULL,'' @ newline
             @ ''    PRIMARY KEY (id)'' @ newline
             @ '');'']"
    by code_simp
  from GenerateCreateTables_permutation [OF h, of show_int] g h
  show ?thesis by auto
qed

theorem GenerateForeignKeys_skips_unresolved_witness:
  "lookupFails blogSchema danglingForeignKey
   \<and> emittedFor blogSchema danglingForeignKey = []
   \<and> GenerateForeignKeys (blogSchema\<lparr>ForeignKeys := danglingForeignKey # ForeignKeys blogSchema\<rparr>)
      = Inr [''ALTER TABLE posts ADD CONSTRAINT fk_posts_user_id FOREIGN KEY (user_id) REFERENCES users (id) ON DELETE CASCADE ON UPDATE RESTRICT;'']"
proof -
  let ?sd = "blogSchema\<lparr>ForeignKeys := danglingForeignKey # ForeignKeys blogSchema\<rparr>"
  have t9: "tableMap blogSchema ''t9'' = None"
    by (simp add: tableMap_def blogSchema_def roundTripSchema_def jsonTable_def)
  have f: "lookupFails blogSchema danglingForeignKey"
    by (simp add: lookupFails_def danglingForeignKey_def t9)
  have g2: "GenerateForeignKeys ?sd
      = Inr [''ALTER TABLE posts ADD CONSTRAINT fk_posts_user_id FOREIGN KEY (user_id) REFERENCES users (id) ON DELETE CASCADE ON UPDATE RESTRICT;'']"
    by code_simp
  from GenerateForeignKeys_skips_unresolved [of blogSchema] f
  have a: "emittedFor blogSchema danglingForeignKey = []" by blast
  from f a g2 show ?thesis by simp
qed

theorem GenerateForeignKeys_name_and_actions_witness:
  "hd (ForeignKeys sharedIdSchema) \<in> set (ForeignKeys sharedIdSchema)
   \<and> fk_Name (hd (ForeignKeys sharedIdSchema)) = ''''
   \<and> OnDelete (hd (ForeignKeys sharedIdSchema)) = ''''
   \<and> OnUpdate (hd (ForeignKeys sharedIdSchema)) = ''DROP''
   \<and> emittedFor sharedIdSchema (hd (ForeignKeys sharedIdSchema)) =
       [''ALTER TABLE users ADD CONSTRAINT fk_users_author FOREIGN KEY (author) REFERENCES posts (pid) ON DELETE RESTRICT ON UPDATE RESTRICT;'']
   \<and> emittedFor blogSchema (hd (ForeignKeys blogSchema)) =
       [''ALTER TABLE posts ADD CONSTRAINT fk_posts_user_id FOREIGN KEY (user_id) REFERENCES users (id) ON DELETE CASCADE ON UPDATE RESTRICT;'']"
proof -
  let ?fk = "hd (ForeignKeys sharedIdSchema)"
  let ?fk' = "hd (ForeignKeys blogSchema)"
  have fk: "?fk \<in> set (ForeignKeys sharedIdSchema)" "fk_Name ?fk = ''''" "OnDelete ?fk = ''''"
    "OnUpdate ?fk = ''DROP''"
    by (simp_all add: sharedIdSchema_def)
  have l: "tableMap sharedIdSchema (SourceTableId ?fk) = Some ''users''
      \<and> tableMap sharedIdSchema (TargetTableId ?fk) = Some ''posts''
      \<and> columnMap sharedIdSchema (SourceColumnId ?fk) = Some ''author''
      \<and> columnMap sharedIdSchema (TargetColumnId ?fk) = Some ''pid''"
    by code_simp
  have fk': "?fk' \<in> set (ForeignKeys blogSchema)" "fk_Name ?fk' = ''''" "OnDelete ?fk' = ''CASCADE''"
    "OnUpdate ?fk' = ''RESTRICT''"
    by (simp_all add: blogSchema_def roundTripSchema_def)
  have l': "tableMap blogSchema (SourceTableId ?fk') = Some ''posts''
      \<and> tableMap blogSchema (TargetTableId ?fk') = Some ''users''
      \<and> columnMap blogSchema (SourceColumnId ?fk') = Some ''user_id''
      \<and> columnMap blogSchema (TargetColumnId ?fk') = Some ''id''"
    by code_simp
  from GenerateForeignKeys_name_and_actions [of sharedIdSchema] fk(1) l
  have a: "emittedFor sharedIdSchema ?fk =
       [''ALTER TABLE users ADD CONSTRAINT fk_users_author FOREIGN KEY (author) REFERENCES posts (pid) ON DELETE RESTRICT ON UPDATE RESTRICT;'']"
    unfolding Let_def by (auto simp: fk foreignKeyActions_def)
  from GenerateForeignKeys_name_and_actions [of blogSchema] fk'(1) l'
  have b: "emittedFor blogSchema ?fk' =
       [''ALTER TABLE posts ADD CONSTRAINT fk_posts_user_id FOREIGN KEY (user_id) REFERENCES users (id) ON DELETE CASCADE ON UPDATE RESTRICT;'']"
    unfolding Let_def by (auto simp: fk' foreignKeyActions_def)
  from fk a b show ?thesis by simp
qed

theorem GenerateForeignKeys_column_lookup_unscoped_witness:
  "c_ID ` set (Columns (Tables sharedIdSchema ! 0)) = {''c1''}
   \<and> SourceTableId (hd (ForeignKeys sharedIdSchema)) = t_ID (Tables sharedIdSchema ! 0)
   \<and> SourceColumnId (hd (ForeignKeys sharedIdSchema)) = ''c9''
   \<and> columnMap sharedIdSchema ''c9'' = Some ''author''
   \<and> columnMap sharedIdSchema ''c1'' = Some ''pid''
   \<and> \<not> lookupFails sharedIdSchema (hd (ForeignKeys sharedIdSchema))
   \<and> GenerateForeignKeys sharedIdSchema =
       Inr [''ALTER TABLE users ADD CONSTRAINT fk_users_author FOREIGN KEY (author) REFERENCES posts (pid) ON DELETE RESTRICT ON UPDATE RESTRICT;'']"
proof -
  let ?fk = "hd (ForeignKeys sharedIdSchema)"
  have ids: "?fk \<in> set (ForeignKeys sharedIdSchema)"
    "SourceTableId ?fk \<in> t_ID ` set (Tables sharedIdSchema)"
    "TargetTableId ?fk \<in> t_ID ` set (Tables sharedIdSchema)"
    "SourceColumnId ?fk \<in> c_ID ` set (allColumns sharedIdSchema)"
    "TargetColumnId ?fk \<in> c_ID ` set (allColumns sharedIdSchema)"
    "''c1'' \<in> c_ID ` set (allColumns sharedIdSchema)"
    "''c9'' \<in> c_ID ` set (allColumns sharedIdSchema)"
    by (simp_all add: sharedIdSchema_def allColumns_def jsonTable_def jsonColumn_def)
  have shape: "c_ID ` set (Columns (Tables sharedIdSchema ! 0)) = {''c1''}"
    "SourceTableId ?fk = t_ID (Tables sharedIdSchema ! 0)" "SourceColumnId ?fk = ''c9''"
    by (simp_all add: sharedIdSchema_def allColumns_def jsonTable_def jsonColumn_def)
  have last: "c_Name (last (filter (\<lambda>c. c_ID c = ''c9'') (allColumns sharedIdSchema))) = ''author''"
    "c_Name (last (filter (\<lambda>c. c_ID c = ''c1'') (allColumns sharedIdSchema))) = ''pid''"
    by (simp_all add: sharedIdSchema_def allColumns_def jsonTable_def jsonColumn_def)
  have g: "GenerateForeignKeys sharedIdSchema =
       Inr [''ALTER TABLE users ADD CONSTRAINT fk_users_author FOREIGN KEY (author) REFERENCES posts (pid) ON DELETE RESTRICT ON UPDATE RESTRICT;'']"
    by code_simp
  from GenerateForeignKeys_column_lookup_unscoped [of sharedIdSchema] ids last
  have "columnMap sharedIdSchema ''c9'' = Some ''author''"
    "columnMap sharedIdSchema ''c1'' = Some ''pid''"
    "\<not> lookupFails sharedIdSchema ?fk"
    by auto
  with shape g show ?thesis by simp
qed

section \<open>Regeneration of a database\<close>

lemma runPlan_prefix_aux:
  "runPlan be plan w = (tr, w') \<Longrightarrow> map fst tr = take (length tr) plan"
  by (induction plan arbitrary: w tr w') (auto split: prod.splits option.splits)

lemma runPlan_prefix:
  "map fst (fst (runPlan be plan w)) = take (length (fst (runPlan be plan w))) plan"
  using runPlan_prefix_aux [of be plan w] by (cases "runPlan be plan w") simp

lemma runPlan_length_aux: "runPlan be plan w = (tr, w') \<Longrightarrow> length tr \<le> length plan"
  by (induction plan arbitrary: w tr w') (auto split: prod.splits option.splits)

lemma runPlan_length: "length (fst (runPlan be plan w)) \<le> length plan"
  using runPlan_length_aux [of be plan w] by (cases "runPlan be plan w") simp

lemma runPlan_nonempty: "plan \<noteq> [] \<Longrightarrow> fst (runPlan be plan w) \<noteq> []"
  by (cases plan) (auto split: prod.splits option.splits)

lemma runPlan_failure_last:
  "k < length (fst (runPlan be plan w)) \<Longrightarrow> snd (fst (runPlan be plan w) ! k) \<noteq> None
   \<Longrightarrow> Suc k = length (fst (runPlan be plan w))"
proof (induction plan arbitrary: w k)
  case Nil
  then show ?case by simp
next
  case (Cons c plan)
  obtain r w' where b: "be c w = (r, w')" by (cases "be c w")
  show ?case
  proof (cases r)
    case None
    obtain tr w'' where t: "runPlan be plan w' = (tr, w'')" by (cases "runPlan be plan w'")
    from Cons.prems b None t obtain k' where k': "k = Suc k'"
      by (cases k) auto
    with Cons.prems b None t have "k' < length (fst (runPlan be plan w'))"
      "snd (fst (runPlan be plan w') ! k') \<noteq> None"
      by auto
    from Cons.IH [OF this] k' b None t show ?thesis by simp
  next
    case (Some e)
    with Cons.prems b show ?thesis by simp
  qed
qed

lemma runPlan_all_ok_length_aux:
  "runPlan be plan w = (tr, w') \<Longrightarrow> list_all (\<lambda>x. snd x = None) tr
   \<Longrightarrow> length tr = length plan"
  by (induction plan arbitrary: w tr w') (auto split: prod.splits option.splits)

lemma runPlan_all_ok_length:
  "list_all (\<lambda>x. snd x = None) (fst (runPlan be plan w))
   \<Longrightarrow> length (fst (runPlan be plan w)) = length plan"
  using runPlan_all_ok_length_aux [of be plan w] by (cases "runPlan be plan w") simp

lemma runPlan_append:
  "runPlan be (p1 @ p2) w =
     (case runPlan be p1 w of
        (t1, w1) \<Rightarrow>
          if list_all (\<lambda>x. snd x = None) t1
          then (case runPlan be p2 w1 of (t2, w2) \<Rightarrow> (t1 @ t2, w2))
          else (t1, w1))"
  by (induction p1 arbitrary: w) (auto split: prod.splits option.splits)

lemma execLoop_runPlan:
  "execLoop be dsn what stmts s =
     (case runPlan be (map (Exec dsn) stmts) (world s) of
        (tr, w) \<Rightarrow>
          (if list_all (\<lambda>x. snd x = None) tr then None
           else Some (what @ the (snd (last tr)) @ newline @ ''Statement: ''
                      @ stmts ! (length tr - 1)),
           s\<lparr>world := w, calls := calls s @ tr\<rparr>))"
proof (induction stmts arbitrary: s)
  case Nil
  then show ?case by simp
next
  case (Cons x stmts)
  obtain r w' where b: "be (Exec dsn x) (world s) = (r, w')"
    by (cases "be (Exec dsn x) (world s)")
  show ?case
  proof (cases r)
    case None
    let ?s = "s\<lparr>world := w', calls := calls s @ [(Exec dsn x, None)]\<rparr>"
    obtain tr w'' where t: "runPlan be (map (Exec dsn) stmts) w' = (tr, w'')"
      by (cases "runPlan be (map (Exec dsn) stmts) w'")
    have ne: "tr \<noteq> []" if "\<not> list_all (\<lambda>x. snd x = None) tr"
      using that by auto
    from b None t Cons.IH [of ?s] ne show ?thesis
      by (auto simp: perform_def)
  next
    case (Some e)
    with b show ?thesis by (simp add: perform_def)
  qed
qed

lemma DropDatabase_runPlan:
  "DropDatabase be config name s =
     (case runPlan be (dropPlan config name) (world s) of
        (tr, w) \<Rightarrow>
          (if list_all (\<lambda>x. snd x = None) tr then None
           else Some ((if length tr = 1 then ''failed to connect to postgres database: ''
                       else ''failed to drop database '' @ name @ '': '') @ the (snd (last tr))),
           (if list_all (\<lambda>x. snd x = None) tr
            then log_Printf (''Database '' @ name @ '' dropped successfully'')
                   (s\<lparr>world := w, calls := calls s @ tr\<rparr>)
            else s\<lparr>world := w, calls := calls s @ tr\<rparr>)))"
  by (auto simp: DropDatabase_def DropDynamicDatabase_def dropPlan_def perform_def Let_def
      split: prod.splits option.splits)

lemma RegenerateDatabase_result:
  assumes "DropDatabase be config name s = (dropped, s1)"
    and "runPlan be (regenerationPlan config name (tablesLoop fmt_v (Tables sd) [])
           (foreignKeysLoop (tableMap sd) (columnMap sd) (ForeignKeys sd) [])) (world s1) = (tr, w)"
  shows "fst (RegenerateDatabase be fmt_v config sd name s) =
           (if list_all (\<lambda>x. snd x = None) tr then None
            else Some (failureText name (tablesLoop fmt_v (Tables sd) [])
                        (foreignKeysLoop (tableMap sd) (columnMap sd) (ForeignKeys sd) [])
                        (length tr - 1) (the (snd (last tr)))))"
  using assms
  unfolding RegenerateDatabase_def CreateDatabase_def CreateDynamicDatabase_def
    regenerationPlan_def GenerateCreateTables_def GenerateForeignKeys_def Let_def
  by (auto simp: perform_def log_Printf_def execLoop_runPlan runPlan_append failureText_def
      split: prod.splits option.splits if_splits
      dest: runPlan_length_aux runPlan_all_ok_length_aux)

lemma RegenerateDatabase_calls:
  assumes "DropDatabase be config name s = (dropped, s1)"
    and "runPlan be (regenerationPlan config name (tablesLoop fmt_v (Tables sd) [])
           (foreignKeysLoop (tableMap sd) (columnMap sd) (ForeignKeys sd) [])) (world s1) = (tr, w)"
  shows "calls (snd (RegenerateDatabase be fmt_v config sd name s)) = calls s1 @ tr"
  using assms
  unfolding RegenerateDatabase_def CreateDatabase_def CreateDynamicDatabase_def
    regenerationPlan_def GenerateCreateTables_def GenerateForeignKeys_def Let_def
  by (auto simp: perform_def log_Printf_def execLoop_runPlan runPlan_append
      split: prod.splits option.splits if_splits)

lemma RegenerateDatabase_world:
  assumes "DropDatabase be config name s = (dropped, s1)"
    and "runPlan be (regenerationPlan config name (tablesLoop fmt_v (Tables sd) [])
           (foreignKeysLoop (tableMap sd) (columnMap sd) (ForeignKeys sd) [])) (world s1) = (tr, w)"
  shows "world (snd (RegenerateDatabase be fmt_v config sd name s)) = w"
  using assms
  unfolding RegenerateDatabase_def CreateDatabase_def CreateDynamicDatabase_def
    regenerationPlan_def GenerateCreateTables_def GenerateForeignKeys_def Let_def
  by (auto simp: perform_def log_Printf_def execLoop_runPlan runPlan_append
      split: prod.splits option.splits if_splits)

lemma RegenerateDatabase_logs_warning:
  assumes "DropDatabase be config name s = (Some e, s1)"
  shows "(''Warning: Failed to drop database '' @ name @ '': '' @ e)
           \<in> set (logs (snd (RegenerateDatabase be fmt_v config sd name s)))"
  using assms
  unfolding RegenerateDatabase_def CreateDatabase_def CreateDynamicDatabase_def
    GenerateCreateTables_def GenerateForeignKeys_def Let_def
  by (auto simp: perform_def log_Printf_def execLoop_runPlan
      split: prod.splits option.splits if_splits)

text \<open>
  Claim C1.  \<open>RegenerateDatabase\<close> first drops the database; whether the drop fails has no
  part in the result, and a failed drop leaves a warning in the log.  After the drop it
  makes the calls of the plan (connect to the administrative database, \<open>CREATE DATABASE\<close>,
  connect to the new database, every \<open>CREATE TABLE\<close> statement, every \<open>ALTER TABLE\<close>
  statement) in this order and stops at the first call that fails: the calls made are a
  non-empty prefix of the plan, only the last of them can have failed, and when an
  \<open>ALTER TABLE\<close> statement was executed then every \<open>CREATE TABLE\<close> statement was executed
  before it and succeeded.  The result is success exactly when the whole plan was carried
  out and every call succeeded; otherwise the error is the one of the failing call, and
  for a statement it contains the text of that statement.
\<close>

theorem RegenerateDatabase_order_and_result:
  fixes be :: "'w backend" and sd :: "'f SchemaData"
  shows "\<exists>dropped s1 tableStatements fkStatements result s2 dropTrace plan trace.
      DropDatabase be config name s = (dropped, s1)
    \<and> GenerateCreateTables fmt_v sd = Inr tableStatements
    \<and> GenerateForeignKeys sd = Inr fkStatements
    \<and> RegenerateDatabase be fmt_v config sd name s = (result, s2)
    \<and> dropTrace = fst (runPlan be (dropPlan config name) (world s))
    \<and> plan = regenerationPlan config name tableStatements fkStatements
    \<and> trace = fst (runPlan be plan (world s1))
    \<and> calls s1 = calls s @ dropTrace
    \<and> (dropped = None \<longleftrightarrow> (\<forall>x\<in>set dropTrace. snd x = None))
    \<and> (\<forall>e. dropped = Some e \<longrightarrow>
          (''Warning: Failed to drop database '' @ name @ '': '' @ e) \<in> set (logs s2))
    \<and> calls s2 = calls s @ dropTrace @ trace
    \<and> world s2 = snd (runPlan be plan (world s1))
    \<and> trace \<noteq> []
    \<and> map fst trace = take (length trace) plan
    \<and> (\<forall>k<length trace. snd (trace ! k) \<noteq> None \<longrightarrow> Suc k = length trace)
    \<and> (\<forall>k<length trace. 3 + length tableStatements \<le> k \<longrightarrow>
          (\<forall>i<length tableStatements.
             trace ! (3 + i) = (Exec (targetDSN config name) (tableStatements ! i), None)))
    \<and> (result = None \<longleftrightarrow> length trace = length plan \<and> (\<forall>x\<in>set trace. snd x = None))
    \<and> (\<forall>e. result = Some e \<longrightarrow>
          (\<exists>m. snd (last trace) = Some m
             \<and> e = failureText name tableStatements fkStatements (length trace - 1) m))"
proof -
  let ?tbls = "tablesLoop fmt_v (Tables sd) []"
  let ?fks = "foreignKeysLoop (tableMap sd) (columnMap sd) (ForeignKeys sd) []"
  let ?plan = "regenerationPlan config name ?tbls ?fks"
  let ?ok = "\<lambda>x :: call \<times> string option. snd x = None"
  obtain dropped s1 where d: "DropDatabase be config name s = (dropped, s1)"
    by (cases "DropDatabase be config name s")
  obtain dtr dw where dr: "runPlan be (dropPlan config name) (world s) = (dtr, dw)"
    by (cases "runPlan be (dropPlan config name) (world s)")
  obtain tr w where r: "runPlan be ?plan (world s1) = (tr, w)"
    by (cases "runPlan be ?plan (world s1)")
  obtain result s2 where g: "RegenerateDatabase be fmt_v config sd name s = (result, s2)"
    by (cases "RegenerateDatabase be fmt_v config sd name s")
  have tr: "tr = fst (runPlan be ?plan (world s1))" using r by simp
  from d dr have d1: "calls s1 = calls s @ dtr"
    and d2: "dropped = None \<longleftrightarrow> list_all ?ok dtr"
    by (auto simp: DropDatabase_runPlan log_Printf_def split: if_splits)
  from RegenerateDatabase_result [OF d r] RegenerateDatabase_calls [OF d r]
    RegenerateDatabase_world [OF d r] g
  have res: "result = (if list_all ?ok tr then None
                       else Some (failureText name ?tbls ?fks (length tr - 1) (the (snd (last tr)))))"
    and c2: "calls s2 = calls s1 @ tr" and w2: "world s2 = w"
    by simp_all
  have warn: "(''Warning: Failed to drop database '' @ name @ '': '' @ e) \<in> set (logs s2)"
    if "dropped = Some e" for e
    using RegenerateDatabase_logs_warning [of be config name s e s1 fmt_v sd] d g that by simp
  have ne: "tr \<noteq> []"
    unfolding tr by (rule runPlan_nonempty) (simp add: regenerationPlan_def)
  have pre: "map fst tr = take (length tr) ?plan"
    unfolding tr by (rule runPlan_prefix)
  have len: "length tr \<le> length ?plan"
    unfolding tr by (rule runPlan_length)
  have lastf: "Suc k = length tr" if "k < length tr" "snd (tr ! k) \<noteq> None" for k
    using runPlan_failure_last [of k be ?plan "world s1"] that unfolding tr by simp
  have ord: "tr ! (3 + i) = (Exec (targetDSN config name) (?tbls ! i), None)"
    if k: "k < length tr" "3 + length ?tbls \<le> k" and i: "i < length ?tbls" for k i
  proof -
    from k i have lt: "3 + i < length tr" and nl: "Suc (3 + i) \<noteq> length tr" by simp_all
    from lastf [OF lt] nl have "snd (tr ! (3 + i)) = None" by blast
    moreover from lt have "fst (tr ! (3 + i)) = map fst tr ! (3 + i)" by simp
    then have "fst (tr ! (3 + i)) = ?plan ! (3 + i)"
      unfolding pre using lt by simp
    then have "fst (tr ! (3 + i)) = Exec (targetDSN config name) (?tbls ! i)"
      using i by (simp add: regenerationPlan_def nth_append)
    ultimately show ?thesis by (simp add: prod_eq_iff)
  qed
  have iff: "result = None \<longleftrightarrow> length tr = length ?plan \<and> (\<forall>x\<in>set tr. snd x = None)"
  proof
    assume "result = None"
    with res have ok: "list_all ?ok tr" by (simp split: if_splits)
    with runPlan_all_ok_length [of be ?plan "world s1"] tr
    show "length tr = length ?plan \<and> (\<forall>x\<in>set tr. snd x = None)"
      by (simp add: list_all_iff)
  next
    assume "length tr = length ?plan \<and> (\<forall>x\<in>set tr. snd x = None)"
    then show "result = None" using res by (simp add: list_all_iff)
  qed
  have err: "\<exists>m. snd (last tr) = Some m
      \<and> e = failureText name ?tbls ?fks (length tr - 1) m" if "result = Some e" for e
  proof -
    from that res have nok: "\<not> list_all ?ok tr"
      and e: "e = failureText name ?tbls ?fks (length tr - 1) (the (snd (last tr)))"
      by (simp_all split: if_splits)
    from nok obtain k where k: "k < length tr" "snd (tr ! k) \<noteq> None"
      by (auto simp: list_all_length)
    from lastf [OF k] have "k = length tr - 1" by simp
    with k ne have "snd (last tr) \<noteq> None"
      by (simp add: last_conv_nth)
    with e show ?thesis by auto
  qed
  show ?thesis
    using d g dr r d1 d2 c2 w2 ne pre lastf ord iff err warn
    by (simp add: GenerateCreateTables_def GenerateForeignKeys_def list_all_iff)
qed

theorem RegenerateDatabase_order_and_result_witness:
  "fst (DropDatabase flakyBackend defaultConfig ''shop_db'' initial)
     = Some ''failed to drop database shop_db: database is in use''
   \<and> ''Warning: Failed to drop database shop_db: failed to drop database shop_db: database is in use''
       \<in> set (logs (snd (RegenerateDatabase flakyBackend show_int defaultConfig blogSchema
                           ''shop_db'' initial)))
   \<and> (case RegenerateDatabase flakyBackend show_int defaultConfig blogSchema ''shop_db'' initial of
        (result, s) \<Rightarrow>
          result = Some (''failed to execute foreign key statement: permission denied'' @ newline
             @ ''Statement: ALTER TABLE posts ADD CONSTRAINT fk_posts_user_id FOREIGN KEY (user_id) REFERENCES users (id) ON DELETE CASCADE ON UPDATE RESTRICT;'')
          \<and> map snd (calls s)
              = [None, Some ''database is in use'', None, None, None, None, None,
                 Some ''permission denied''])
   \<and> fst (RegenerateDatabase okBackend show_int defaultConfig blogSchema ''shop_db'' initial) = None"
proof -
  let ?run = "RegenerateDatabase flakyBackend show_int defaultConfig blogSchema ''shop_db'' initial"
  have d: "fst (DropDatabase flakyBackend defaultConfig ''shop_db'' initial)
     = Some ''failed to drop database shop_db: database is in use''"
    by code_simp
  have r: "case ?run of
        (result, s) \<Rightarrow>
          result = Some (''failed to execute foreign key statement: permission denied'' @ newline
             @ ''Statement: ALTER TABLE posts ADD CONSTRAINT fk_posts_user_id FOREIGN KEY (user_id) REFERENCES users (id) ON DELETE CASCADE ON UPDATE RESTRICT;'')
          \<and> map snd (calls s)
              = [None, Some ''database is in use'', None, None, None, None, None,
                 Some ''permission denied'']"
    by code_simp
  have ok: "fst (RegenerateDatabase okBackend show_int defaultConfig blogSchema ''shop_db'' initial) = None"
    by code_simp
  from RegenerateDatabase_order_and_result
         [of flakyBackend defaultConfig "''shop_db''" initial show_int blogSchema]
  obtain dropped s1 result s2 where
    "DropDatabase flakyBackend defaultConfig ''shop_db'' initial = (dropped, s1)"
    "?run = (result, s2)"
    "\<forall>e. dropped = Some e \<longrightarrow>
       (''Warning: Failed to drop database '' @ ''shop_db'' @ '': '' @ e) \<in> set (logs s2)"
    by blast
  with d have "''Warning: Failed to drop database shop_db: failed to drop database shop_db: database is in use''
       \<in> set (logs (snd ?run))"
    by auto
  with d r ok show ?thesis by blast
qed

section \<open>Create and update\<close>

text \<open>
  Claim C4 against the code.  \<open>ValidateSchema\<close> rejects the request with a column of type
  \<open>MONEY\<close>.  \<open>CreateSchema\<close> and \<open>UpdateSchema\<close> do not call the validator: given the
  same tables, both regenerate the database, execute the \<open>CREATE TABLE\<close> statement with
  \<open>TEXT\<close> in place of the unsupported type, and return the schema as created (updated).
\<close>

theorem CreateSchema_materializes_invalid_schema:
  "(case ValidateSchema requestMoney of Inl err \<Rightarrow> False | Inr result \<Rightarrow> \<not> Valid result)
   \<and> csr_Tables createMoney = svr_Tables requestMoney
   \<and> usr_Tables updateMoney = svr_Tables requestMoney
   \<and> (case CreateSchema okBackend show_int exampleRepository defaultConfig
              ''123e4567-e89b-12d3-a456-426614174000'' ''00000000-0000-4000-8000-000000000001''
              ''2025-06-08T00:00:00Z'' createMoney ''u1'' initial of
        (result, s) \<Rightarrow>
          map_sum id Status result = Inr ''created''
          \<and> calls s =
             [(Open (postgresDSN defaultConfig), None),
              (Exec (postgresDSN defaultConfig)
                 ''DROP DATABASE IF EXISTS schema_123e4567_e89b_12d3_a456_426614174000'', None),
              (Open (postgresDSN defaultConfig), None),
              (Exec (postgresDSN defaultConfig)
                 ''CREATE DATABASE schema_123e4567_e89b_12d3_a456_426614174000'', None),
              (Open (targetDSN defaultConfig ''schema_123e4567_e89b_12d3_a456_426614174000''),
               None),
              (Exec (targetDSN defaultConfig ''schema_123e4567_e89b_12d3_a456_426614174000'')
                 (''CREATE TABLE items ('' @ newline
                  @ ''    id INTEGER NOT NULL,'' @ newline
                  @ ''    price TEXT NOT NULL,'' @ newline
                  @ ''    PRIMARY KEY (id)'' @ newline
                  @ '');''), None)])
   \<and> (case UpdateSchema okBackend show_int exampleRepository defaultConfig
              ''2025-06-08T00:00:00Z'' ''7d444840-9dc0-11d1-b245-5ffdce74fad2'' ''u1''
              updateMoney initial of
        (result, s) \<Rightarrow>
          map_sum id Status result = Inr ''updated''
          \<and> calls s =
             [(Open (postgresDSN defaultConfig), None),
              (Exec (postgresDSN defaultConfig) ''DROP DATABASE IF EXISTS schema_old'', None),
              (Open (postgresDSN defaultConfig), None),
              (Exec (postgresDSN defaultConfig) ''CREATE DATABASE schema_old'', None),
              (Open (targetDSN defaultConfig ''schema_old''), None),
              (Exec (targetDSN defaultConfig ''schema_old'')
                 (''CREATE TABLE items ('' @ newline
                  @ ''    id INTEGER NOT NULL,'' @ newline
                  @ ''    price TEXT NOT NULL,'' @ newline
                  @ ''    PRIMARY KEY (id)'' @ newline
                  @ '');''), None)])"
proof -
  have v: "case ValidateSchema requestMoney of Inl err \<Rightarrow> False | Inr result \<Rightarrow> \<not> Valid result"
    by code_simp
  have t: "csr_Tables createMoney = svr_Tables requestMoney"
    "usr_Tables updateMoney = svr_Tables requestMoney"
    by (simp_all add: createMoney_def updateMoney_def)
  have c: "case CreateSchema okBackend show_int exampleRepository defaultConfig
              ''123e4567-e89b-12d3-a456-426614174000'' ''00000000-0000-4000-8000-000000000001''
              ''2025-06-08T00:00:00Z'' createMoney ''u1'' initial of
        (result, s) \<Rightarrow>
          map_sum id Status result = Inr ''created''
          \<and> calls s =
             [(Open (postgresDSN defaultConfig), None),
              (Exec (postgresDSN defaultConfig)
                 ''DROP DATABASE IF EXISTS schema_123e4567_e89b_12d3_a456_426614174000'', None),
              (Open (postgresDSN defaultConfig), None),
              (Exec (postgresDSN defaultConfig)
                 ''CREATE DATABASE schema_123e4567_e89b_12d3_a456_426614174000'', None),
              (Open (targetDSN defaultConfig ''schema_123e4567_e89b_12d3_a456_426614174000''),
               None),
              (Exec (targetDSN defaultConfig ''schema_123e4567_e89b_12d3_a456_426614174000'')
                 (''CREATE TABLE items ('' @ newline
                  @ ''    id INTEGER NOT NULL,'' @ newline
                  @ ''    price TEXT NOT NULL,'' @ newline
                  @ ''    PRIMARY KEY (id)'' @ newline
                  @ '');''), None)]"
    by code_simp
  have u: "case UpdateSchema okBackend show_int exampleRepository defaultConfig
              ''2025-06-08T00:00:00Z'' ''7d444840-9dc0-11d1-b245-5ffdce74fad2'' ''u1''
              updateMoney initial of
        (result, s) \<Rightarrow>
          map_sum id Status result = Inr ''updated''
          \<and> calls s =
             [(Open (postgresDSN defaultConfig), None),
              (Exec (postgresDSN defaultConfig) ''DROP DATABASE IF EXISTS schema_old'', None),
              (Open (postgresDSN defaultConfig), None),
              (Exec (postgresDSN defaultConfig) ''CREATE DATABASE schema_old'', None),
              (Open (targetDSN defaultConfig ''schema_old''), None),
              (Exec (targetDSN defaultConfig ''schema_old'')
                 (''CREATE TABLE items ('' @ newline
                  @ ''    id INTEGER NOT NULL,'' @ newline
                  @ ''    price TEXT NOT NULL,'' @ newline
                  @ ''    PRIMARY KEY (id)'' @ newline
                  @ '');''), None)]"
    by code_simp
  from v t c u show ?thesis by blast
qed

end
